theory Spec2Isabelle
  imports Main "HOL-Library.Word"
begin

unbundle bit_operations_syntax

section \<open>Go values\<close>

text \<open>
  Bytes are 8-bit words and \<open>uint32\<close> is a 32-bit word. Go's \<open>int\<close> is taken at
  64 bits (amd64, arm64) and read signed with \<open>sint\<close>; the conversion \<open>uint32(x)\<close> of
  an \<open>int\<close> keeps the low 32 bits and \<open>int(u)\<close> of a \<open>uint32\<close> zero-extends, which is what
  \<open>ucast\<close> does in both directions.
\<close>

type_synonym byte = "8 word"
type_synonym uint32 = "32 word"
type_synonym go_int = "64 word"

text \<open>
  An \<open>error\<close> value is either made in this package by \<open>errors.New\<close> or handed over by a
  collaborator (the registry client, goavro) and passed on unchanged.
\<close>

datatype error = errorString string | externalError string

text \<open>Run-time panics of the slice operations, with the offending bounds.\<close>

datatype panic = IndexOutOfRange nat nat | SliceBoundsOutOfRange nat nat

datatype 'a outcome = Panicked panic | Returned 'a

text \<open>
  A byte slice has a length and a capacity: \<open>elems\<close> are the cells below the length,
  \<open>spare\<close> the cells of the backing array between length and capacity. Indexing is
  checked against the length; the upper bound of a slice expression \<open>s[lo:hi]\<close> is
  checked against the capacity, and \<open>s[lo:]\<close> stands for \<open>s[lo:len(s)]\<close>.
\<close>

datatype byte_slice = Slice (elems: "byte list") (spare: "byte list")

definition len :: "byte_slice \<Rightarrow> nat" where
  "len s = length (elems s)"

definition cap :: "byte_slice \<Rightarrow> nat" where
  "cap s = length (elems s) + length (spare s)"

definition index :: "byte_slice \<Rightarrow> nat \<Rightarrow> byte outcome" where
  "index s i =
     (if i < len s then Returned (elems s ! i) else Panicked (IndexOutOfRange i (len s)))"

definition slice_lo_hi :: "byte_slice \<Rightarrow> nat \<Rightarrow> nat \<Rightarrow> byte_slice outcome" where
  "slice_lo_hi s lo hi =
     (if hi \<le> cap s \<and> lo \<le> hi
      then Returned (Slice (take (hi - lo) (drop lo (elems s @ spare s)))
                           (drop hi (elems s @ spare s)))
      else Panicked (SliceBoundsOutOfRange lo hi))"

definition slice_lo :: "byte_slice \<Rightarrow> nat \<Rightarrow> byte_slice outcome" where
  "slice_lo s lo =
     (if lo \<le> len s then Returned (Slice (drop lo (elems s)) (spare s))
      else Panicked (SliceBoundsOutOfRange lo (len s)))"

subsection \<open>encoding/binary\<close>

text \<open>
  \<open>binary.BigEndian.Uint32(b)\<close> and \<open>binary.BigEndian.PutUint32(b, v)\<close> of the standard
  library; both start with the bounds check \<open>_ = b[3]\<close>.
\<close>

definition BigEndian_Uint32 :: "byte_slice \<Rightarrow> uint32 outcome" where
  "BigEndian_Uint32 b =
     (case index b 3 of
        Panicked p \<Rightarrow> Panicked p
      | Returned _ \<Rightarrow>
          Returned (ucast (elems b ! 3) OR push_bit 8 (ucast (elems b ! 2))
                    OR push_bit 16 (ucast (elems b ! 1)) OR push_bit 24 (ucast (elems b ! 0))))"

definition BigEndian_PutUint32 :: "byte list \<Rightarrow> uint32 \<Rightarrow> byte list outcome" where
  "BigEndian_PutUint32 b v =
     (if 3 < length b
      then Returned (b[0 := ucast (drop_bit 24 v), 1 := ucast (drop_bit 16 v),
                       2 := ucast (drop_bit 8 v), 3 := ucast v])
      else Panicked (IndexOutOfRange 3 (length b)))"

section \<open>Collaborators\<close>

record subjectVersionID =
  subject :: string
  versionID :: go_int

text \<open>\<open>schemaregistry.Schema\<close> of the registry client library.\<close>

record Schema =
  Schema_text :: string
  Subject :: string
  Version :: go_int
  ID :: go_int

text \<open>
  The registry is a remote service: every call may change its state \<open>'r\<close> and may answer
  differently the next time. A call returns a value or an error, following the Go
  convention that the value is meaningful exactly when the error is \<open>nil\<close>. The interface
  \<open>schemaRegistryClient\<close> of the \<open>Codec\<close> is not declared in the source; its two methods
  are taken with the signatures their call sites show.
\<close>

record 'r schemaRegistryClient =
  GetVersionFor :: "string \<Rightarrow> string \<Rightarrow> 'r \<Rightarrow> (error + go_int) \<times> 'r"
  GetSchemaFor :: "subjectVersionID \<Rightarrow> 'r \<Rightarrow> (error + string) \<times> 'r"

record 'r schemaregistry_Client =
  RegisterNewSchema :: "string \<Rightarrow> string \<Rightarrow> 'r \<Rightarrow> (error + go_int) \<times> 'r"
  IsRegistered :: "string \<Rightarrow> string \<Rightarrow> 'r \<Rightarrow> (error + bool \<times> Schema) \<times> 'r"

text \<open>
  The goavro library: compiling a schema text to a codec \<open>'c\<close>, and the two directions of
  a codec between native values (\<open>interface{}\<close>, \<open>None\<close> for \<open>nil\<close>) and bytes.
\<close>

record ('c, 'n) goavro =
  goavro_NewCodec :: "string \<Rightarrow> error + 'c"
  BinaryFromNative :: "'c \<Rightarrow> byte list \<Rightarrow> 'n option \<Rightarrow> error + byte list"
  NativeFromBinary :: "'c \<Rightarrow> byte list \<Rightarrow> error + 'n option \<times> byte list"

text \<open>
  The world outside the process: the registry's state and, as instrumentation, the trace
  of the registry calls made so far (a schema lookup is recorded with its answer).
\<close>

datatype registry_call =
    RegisterNewSchema_call string string
  | IsRegistered_call string string
  | GetVersionFor_call string string
  | GetSchemaFor_call subjectVersionID "error + string"

record 'r world =
  registry :: 'r
  calls :: "registry_call list"

definition call_GetVersionFor ::
  "'r schemaRegistryClient \<Rightarrow> string \<Rightarrow> string \<Rightarrow> 'r world \<Rightarrow> (error + go_int) \<times> 'r world" where
  "call_GetVersionFor cl subj schema w =
     (case GetVersionFor cl subj schema (registry w) of
        (res, r') \<Rightarrow> (res, \<lparr>registry = r', calls = calls w @ [GetVersionFor_call subj schema]\<rparr>))"

definition call_GetSchemaFor ::
  "'r schemaRegistryClient \<Rightarrow> subjectVersionID \<Rightarrow> 'r world \<Rightarrow> (error + string) \<times> 'r world" where
  "call_GetSchemaFor cl k w =
     (case GetSchemaFor cl k (registry w) of
        (res, r') \<Rightarrow> (res, \<lparr>registry = r', calls = calls w @ [GetSchemaFor_call k res]\<rparr>))"

definition call_RegisterNewSchema ::
  "'r schemaregistry_Client \<Rightarrow> string \<Rightarrow> string \<Rightarrow> 'r world \<Rightarrow> (error + go_int) \<times> 'r world" where
  "call_RegisterNewSchema cl subj schema w =
     (case RegisterNewSchema cl subj schema (registry w) of
        (res, r') \<Rightarrow> (res, \<lparr>registry = r', calls = calls w @ [RegisterNewSchema_call subj schema]\<rparr>))"

definition call_IsRegistered ::
  "'r schemaregistry_Client \<Rightarrow> string \<Rightarrow> string \<Rightarrow> 'r world
     \<Rightarrow> (error + bool \<times> Schema) \<times> 'r world" where
  "call_IsRegistered cl subj schema w =
     (case IsRegistered cl subj schema (registry w) of
        (res, r') \<Rightarrow> (res, \<lparr>registry = r', calls = calls w @ [IsRegistered_call subj schema]\<rparr>))"

section \<open>The package\<close>

subsection \<open>Subject names and the version field\<close>

definition getTopicNameStrategy :: "string \<Rightarrow> bool \<Rightarrow> string" where
  "getTopicNameStrategy topic isKey =
     (if isKey then topic @ ''-key'' else topic @ ''-value'')"

definition getSchemaID :: "byte_slice \<Rightarrow> go_int outcome" where
  "getSchemaID data =
     (case BigEndian_Uint32 data of
        Panicked p \<Rightarrow> Panicked p
      | Returned u \<Rightarrow> Returned (ucast u))"

definition bytesForSchemaID :: "go_int \<Rightarrow> byte list outcome" where
  "bytesForSchemaID schemaID =
     (let data = replicate 4 0 in BigEndian_PutUint32 data (ucast schemaID))"

definition extractSubjectAndVersionFromData ::
  "string \<Rightarrow> bool \<Rightarrow> byte_slice \<Rightarrow> (error + subjectVersionID) outcome" where
  "extractSubjectAndVersionFromData topic isKey data =
     (case index data 0 of
        Panicked p \<Rightarrow> Panicked p
      | Returned magicByte \<Rightarrow>
          if magicByte \<noteq> 0 then Returned (Inl (errorString ''Unknown magic byte''))
          else
            let subj = getTopicNameStrategy topic isKey in
            (case slice_lo_hi data 1 5 of
               Panicked p \<Rightarrow> Panicked p
             | Returned d \<Rightarrow>
                 (case getSchemaID d of
                    Panicked p \<Rightarrow> Panicked p
                  | Returned v \<Rightarrow> Returned (Inr \<lparr>subject = subj, versionID = v\<rparr>))))"

subsection \<open>The codec and its cache\<close>

record ('r, 'c) Codec =
  client :: "'r schemaRegistryClient"
  codecCache :: "subjectVersionID \<rightharpoonup> 'c"
  subjectNameStrategy :: "string \<Rightarrow> bool \<Rightarrow> string"

definition NewCodec :: "'r schemaRegistryClient \<Rightarrow> ('r, 'c) Codec" where
  "NewCodec cl = \<lparr>client = cl, codecCache = Map.empty, subjectNameStrategy = getTopicNameStrategy\<rparr>"

definition getCodecFor ::
  "('c, 'n) goavro \<Rightarrow> ('r, 'c) Codec \<Rightarrow> subjectVersionID \<Rightarrow> 'r world
     \<Rightarrow> (error + 'c) \<times> ('r, 'c) Codec \<times> 'r world" where
  "getCodecFor av c subjectVersion w =
     (case codecCache c subjectVersion of
        Some codec \<Rightarrow> (Inr codec, c, w)
      | None \<Rightarrow>
          (case call_GetSchemaFor (client c) subjectVersion w of
             (Inl err, w') \<Rightarrow> (Inl err, c, w')
           | (Inr schema, w') \<Rightarrow>
               (case goavro_NewCodec av schema of
                  Inl err \<Rightarrow> (Inl err, c, w')
                | Inr codec \<Rightarrow>
                    (Inr codec, c\<lparr>codecCache := (codecCache c)(subjectVersion \<mapsto> codec)\<rparr>, w'))))"

text \<open>
  \<open>Decode\<close> and \<open>Encode\<close> return the pair of their named results (\<open>None\<close> is \<open>nil\<close>),
  together with the codec and the world as the call leaves them; a panic leaves them as
  they were when it was raised.
\<close>

definition Decode ::
  "('c, 'n) goavro \<Rightarrow> ('r, 'c) Codec \<Rightarrow> string \<Rightarrow> bool \<Rightarrow> byte_slice \<Rightarrow> 'r world
     \<Rightarrow> ('n option \<times> error option) outcome \<times> ('r, 'c) Codec \<times> 'r world" where
  "Decode av c topic isKey data w =
     (case extractSubjectAndVersionFromData topic isKey data of
        Panicked p \<Rightarrow> (Panicked p, c, w)
      | Returned (Inl err) \<Rightarrow> (Returned (None, Some err), c, w)
      | Returned (Inr subjectVersion) \<Rightarrow>
          (case getCodecFor av c subjectVersion w of
             (Inl err, c', w') \<Rightarrow> (Returned (None, Some err), c', w')
           | (Inr codec, c', w') \<Rightarrow>
               (case slice_lo data 5 of
                  Panicked p \<Rightarrow> (Panicked p, c', w')
                | Returned payload \<Rightarrow>
                    (case NativeFromBinary av codec (elems payload) of
                       Inl err \<Rightarrow> (Returned (None, Some err), c', w')
                     | Inr (native, rest) \<Rightarrow> (Returned (native, None), c', w')))))"

definition Encode ::
  "('c, 'n) goavro \<Rightarrow> ('r, 'c) Codec \<Rightarrow> string \<Rightarrow> bool \<Rightarrow> string \<Rightarrow> 'n option \<Rightarrow> 'r world
     \<Rightarrow> (byte list option \<times> error option) outcome \<times> ('r, 'c) Codec \<times> 'r world" where
  "Encode av c topic isKey schema native w =
     (let subj = getTopicNameStrategy topic isKey in
      case call_GetVersionFor (client c) subj schema w of
        (Inl err, w0) \<Rightarrow> (Returned (None, Some err), c, w0)
      | (Inr ver, w0) \<Rightarrow>
          let subjectVersionID = \<lparr>subject = subj, versionID = ver\<rparr> in
          (case getCodecFor av c subjectVersionID w0 of
             (Inl err, c', w') \<Rightarrow> (Returned (None, Some err), c', w')
           | (Inr codec, c', w') \<Rightarrow>
               let magicByte = [0] in
               (case bytesForSchemaID (versionID subjectVersionID) of
                  Panicked p \<Rightarrow> (Panicked p, c', w')
                | Returned versionBytes \<Rightarrow>
                    (case BinaryFromNative av codec [] native of
                       Inl err \<Rightarrow> (Returned (None, Some err), c', w')
                     | Inr dataBytes \<Rightarrow>
                         (Returned (Some ((magicByte @ versionBytes) @ dataBytes), None), c', w')))))"

subsection \<open>The single-schema encoder\<close>

record 'c Encoder =
  subjectVersion :: go_int
  codec :: 'c

text \<open>
  \<open>NewEncoder\<close> returns its named results; \<open>None\<close> in the first component is the
  zero-valued \<open>Encoder\<close> that the early returns leave there.
\<close>

definition NewEncoder ::
  "('c, 'n) goavro \<Rightarrow> 'r schemaregistry_Client \<Rightarrow> bool \<Rightarrow> string \<Rightarrow> string \<Rightarrow> 'r world
     \<Rightarrow> ('c Encoder option \<times> error option) \<times> 'r world" where
  "NewEncoder av cl autoRegister subjectName avroSchema w =
     (case (if autoRegister
            then (case call_RegisterNewSchema cl subjectName avroSchema w of
                    (Inl err, w') \<Rightarrow> (Inl err, w')
                  | (Inr ver, w') \<Rightarrow> (Inr ver, w'))
            else (case call_IsRegistered cl subjectName avroSchema w of
                    (Inl clientErr, w') \<Rightarrow> (Inl clientErr, w')
                  | (Inr (isRegistered, schema), w') \<Rightarrow>
                      if \<not> isRegistered
                      then (Inl (errorString (''There is no registration on subject '' @ subjectName
                                              @ '' for schema '' @ avroSchema)), w')
                      else (Inr (Version schema), w')))
      of
        (Inl err, w') \<Rightarrow> ((None, Some err), w')
      | (Inr ver, w') \<Rightarrow>
          (case goavro_NewCodec av avroSchema of
             Inl codecErr \<Rightarrow> ((None, Some codecErr), w')
           | Inr cd \<Rightarrow> ((Some \<lparr>subjectVersion = ver, codec = cd\<rparr>, None), w')))"

definition Encoder_Encode ::
  "('c, 'n) goavro \<Rightarrow> 'c Encoder \<Rightarrow> 'n option \<Rightarrow> error + byte list" where
  "Encoder_Encode av e native = BinaryFromNative av (codec e) [] native"

section \<open>Sequences of calls on one codec\<close>

text \<open>
  A caller issues \<open>Decode\<close> and \<open>Encode\<close> calls one after the other on the same codec;
  the codec and the world are carried from each call to the next, also after a panic that
  the caller recovers from.
\<close>

datatype 'n request =
    DecodeReq string bool byte_slice
  | EncodeReq string bool string "'n option"

fun step ::
  "('c, 'n) goavro \<Rightarrow> 'n request \<Rightarrow> ('r, 'c) Codec \<times> 'r world \<Rightarrow> ('r, 'c) Codec \<times> 'r world" where
  "step av (DecodeReq topic isKey data) (c, w) = snd (Decode av c topic isKey data w)"
| "step av (EncodeReq topic isKey schema native) (c, w) = snd (Encode av c topic isKey schema native w)"

fun run ::
  "('c, 'n) goavro \<Rightarrow> 'n request list \<Rightarrow> ('r, 'c) Codec \<times> 'r world \<Rightarrow> ('r, 'c) Codec \<times> 'r world" where
  "run av [] s = s"
| "run av (q # qs) s = run av qs (step av q s)"

text \<open>Reading the trace: the schema lookups made for a key, and those that led to a stored codec.\<close>

fun is_lookup_of :: "subjectVersionID \<Rightarrow> registry_call \<Rightarrow> bool" where
  "is_lookup_of k (GetSchemaFor_call k' res) = (k' = k)"
| "is_lookup_of k (RegisterNewSchema_call a b) = False"
| "is_lookup_of k (IsRegistered_call a b) = False"
| "is_lookup_of k (GetVersionFor_call a b) = False"

definition lookups :: "subjectVersionID \<Rightarrow> registry_call list \<Rightarrow> nat" where
  "lookups k tr = length (filter (is_lookup_of k) tr)"

fun compiles :: "('c, 'n) goavro \<Rightarrow> error + string \<Rightarrow> bool" where
  "compiles av (Inl e) = False"
| "compiles av (Inr text) = (case goavro_NewCodec av text of Inl e \<Rightarrow> False | Inr cd \<Rightarrow> True)"

fun is_stored_lookup_of :: "('c, 'n) goavro \<Rightarrow> subjectVersionID \<Rightarrow> registry_call \<Rightarrow> bool" where
  "is_stored_lookup_of av k (GetSchemaFor_call k' res) = (k' = k \<and> compiles av res)"
| "is_stored_lookup_of av k (RegisterNewSchema_call a b) = False"
| "is_stored_lookup_of av k (IsRegistered_call a b) = False"
| "is_stored_lookup_of av k (GetVersionFor_call a b) = False"

definition stored_lookups :: "('c, 'n) goavro \<Rightarrow> subjectVersionID \<Rightarrow> registry_call list \<Rightarrow> nat" where
  "stored_lookups av k tr = length (filter (is_stored_lookup_of av k) tr)"

text \<open>
  Decoding what \<open>Encode\<close> produced, on the same codec: the frame is handed to \<open>Decode\<close>
  as a slice with any spare capacity \<open>sp\<close>. \<open>None\<close> when \<open>Encode\<close> returned no frame.
\<close>

definition decode_encoded ::
  "('c, 'n) goavro \<Rightarrow> ('r, 'c) Codec \<Rightarrow> string \<Rightarrow> bool \<Rightarrow> string \<Rightarrow> 'n option \<Rightarrow> byte list
     \<Rightarrow> 'r world \<Rightarrow> ('n option \<times> error option) outcome option" where
  "decode_encoded av c topic isKey schema native sp w =
     (case Encode av c topic isKey schema native w of
        (Returned (Some frame, None), c', w') \<Rightarrow>
          Some (fst (Decode av c' topic isKey (Slice frame sp) w'))
      | (Returned (Some frame, Some err), c', w') \<Rightarrow> None
      | (Returned (None, err), c', w') \<Rightarrow> None
      | (Panicked p, c', w') \<Rightarrow> None)"

text \<open>The value of a byte string read as a big-endian unsigned number.\<close>

definition big_endian_value :: "byte list \<Rightarrow> nat" where
  "big_endian_value bs = foldl (\<lambda>a b. a * 256 + unat b) 0 bs"

section \<open>A concrete setting\<close>

text \<open>
  A small instance to run the definitions on: a codec is its schema text, a native value
  is a byte string written out as it is, and the empty schema text does not compile. The
  registry counts its calls and knows one schema \<open>text\<close>, registered as version \<open>ver\<close>
  under the subject \<open>orders-value\<close>.
\<close>

definition demo_goavro :: "(string, byte list) goavro" where
  "demo_goavro =
     \<lparr>goavro_NewCodec = (\<lambda>text. if text = [] then Inl (externalError ''cannot compile'') else Inr text),
      BinaryFromNative = (\<lambda>cd buf native.
         case native of None \<Rightarrow> Inl (externalError ''cannot encode'') | Some bs \<Rightarrow> Inr (buf @ bs)),
      NativeFromBinary = (\<lambda>cd bs. Inr (Some bs, []))\<rparr>"

definition demo_client :: "go_int \<Rightarrow> string \<Rightarrow> nat schemaRegistryClient" where
  "demo_client ver text =
     \<lparr>GetVersionFor = (\<lambda>subj schema r.
         (if subj = ''orders-value'' \<and> schema = text then Inr ver
          else Inl (externalError ''schema not found''), Suc r)),
      GetSchemaFor = (\<lambda>k r.
         (if subject k = ''orders-value'' \<and> versionID k = ver then Inr text
          else Inl (externalError ''version not found''), Suc r))\<rparr>"

definition demo_registry :: "go_int \<Rightarrow> string \<Rightarrow> nat schemaregistry_Client" where
  "demo_registry ver text =
     \<lparr>RegisterNewSchema = (\<lambda>subj schema r. (Inr (ver + 1), Suc r)),
      IsRegistered = (\<lambda>subj schema r.
         (if schema = text
          then Inr (True, \<lparr>Schema_text = schema, Subject = subj, Version = ver, ID = 1\<rparr>)
          else Inr (False, \<lparr>Schema_text = [], Subject = [], Version = 0, ID = 0\<rparr>), Suc r))\<rparr>"

definition demo_codec :: "go_int \<Rightarrow> string \<Rightarrow> (nat, string) Codec" where
  "demo_codec ver text = NewCodec (demo_client ver text)"

definition world0 :: "nat world" where
  "world0 = \<lparr>registry = 0, calls = []\<rparr>"

text \<open>An alternative naming strategy, which ignores the key/value distinction.\<close>

definition topicOnlyStrategy :: "string \<Rightarrow> bool \<Rightarrow> string" where
  "topicOnlyStrategy topic isKey = topic"

section \<open>The version field: arithmetic\<close>


lemma unat_drop_bit_uint32: "unat (drop_bit k (u :: uint32)) = unat u div 2 ^ k"
  unfolding unat_drop_bit_eq by (rule drop_bit_eq_div)

lemma unat_ucast_byte: "unat (ucast (u :: uint32) :: byte) = unat u mod 256"
  by (simp add: unsigned_ucast_eq unsigned_take_bit_eq take_bit_eq_mod)

lemma nat_split4:
  fixes n :: nat
  assumes "n < 2 ^ 32"
  shows "((n div 2 ^ 24 mod 256 * 256 + n div 2 ^ 16 mod 256) * 256 + n div 2 ^ 8 mod 256) * 256 + n mod 256 = n"
proof -
  define a where "a = n div 256"
  define b where "b = a div 256"
  define c where "c = b div 256"
  have e8: "n div 2 ^ 8 = a"
    by (simp add: a_def)
  have e16: "n div 2 ^ 16 = b"
    by (simp add: a_def b_def div_mult2_eq [symmetric])
  have e24: "n div 2 ^ 24 = c"
    by (simp add: a_def b_def c_def div_mult2_eq [symmetric])
  have "n div 2 ^ 24 < 256"
    using assms by (intro less_mult_imp_div_less) simp
  then have "c < 256"
    by (simp only: e24)
  then have small: "c mod 256 = c"
    by simp
  have "((c mod 256 * 256 + b mod 256) * 256 + a mod 256) * 256 + n mod 256
      = ((c * 256 + b mod 256) * 256 + a mod 256) * 256 + n mod 256"
    by (simp only: small)
  also have "\<dots> = (b * 256 + a mod 256) * 256 + n mod 256"
    by (simp add: c_def)
  also have "\<dots> = a * 256 + n mod 256"
    by (simp add: b_def)
  also have "\<dots> = n"
    by (simp add: a_def)
  finally show ?thesis
    by (simp only: e8 e16 e24)
qed

lemma big_endian_value_bytes:
  "big_endian_value [ucast (drop_bit 24 u), ucast (drop_bit 16 u), ucast (drop_bit 8 u), ucast (u :: uint32)] = unat u"
proof -
  have "unat u < 2 ^ 32" using unsigned_less [of u] by simp
  then show ?thesis
    by (simp only: big_endian_value_def foldl.simps unat_ucast_byte unat_drop_bit_uint32
          mult_zero_left add_0_left nat_split4)
qed

lemma take_bit_32_sint: "take_bit 32 (uint (v :: go_int)) = sint v mod 2 ^ 32"
proof -
  have "take_bit 32 (signed_take_bit 63 (uint v)) = take_bit 32 (uint v)"
    by (rule take_bit_signed_take_bit) simp
  then have "take_bit 32 (sint v) = take_bit 32 (uint v)"
    by (simp add: sint_uint)
  then show ?thesis by (simp add: take_bit_eq_mod)
qed

lemma sint_take_bit_32: "sint (take_bit 32 (v :: go_int)) = sint v mod 2 ^ 32"
proof -
  have b: "take_bit 32 (uint v) < 2 ^ 32" by (rule take_bit_int_less_exp)
  have "sint (take_bit 32 v) = signed_take_bit 63 (take_bit 32 (uint v))"
    by (simp add: sint_uint unsigned_take_bit_eq)
  also have "\<dots> = take_bit 32 (uint v)"
  proof (rule signed_take_bit_int_eq_self)
    have "(0::int) \<le> take_bit 32 (uint v)" by simp
    then show "- (2 ^ 63) \<le> take_bit 32 (uint v)" by (rule order_trans [rotated]) simp
    show "take_bit 32 (uint v) < 2 ^ 63" using b by simp
  qed
  finally show ?thesis by (simp add: take_bit_32_sint)
qed

lemma unat_ucast_go_int: "unat (ucast (v :: go_int) :: uint32) = nat (sint v mod 2 ^ 32)"
proof -
  have "take_bit 32 (int (unat v)) = int (take_bit 32 (unat v))"
    by (rule take_bit_of_nat)
  then have "int (unat (ucast v :: uint32)) = take_bit 32 (uint v)"
    by (simp add: unsigned_ucast_eq unsigned_take_bit_eq)
  then have "int (unat (ucast v :: uint32)) = sint v mod 2 ^ 32"
    by (simp only: take_bit_32_sint)
  then show ?thesis by (metis nat_int)
qed

lemma ucast_ucast_go_int: "(ucast (ucast (v :: go_int) :: uint32) :: go_int) = take_bit 32 v"
  by (simp add: unsigned_ucast_eq)

lemma in_range_take_bit: "0 \<le> sint (v :: go_int) \<Longrightarrow> sint v < 2 ^ 32 \<Longrightarrow> take_bit 32 v = v"
proof -
  assume a: "0 \<le> sint v" "sint v < 2 ^ 32"
  have "sint (take_bit 32 v) = sint v" using a by (simp add: sint_take_bit_32)
  then show ?thesis by (simp only: signed_word_eqI)
qed

section \<open>Frames\<close>


lemma bytesForSchemaID_Returned:
  "bytesForSchemaID v =
     Returned [ucast (drop_bit 24 (ucast v :: uint32)), ucast (drop_bit 16 (ucast v :: uint32)),
               ucast (drop_bit 8 (ucast v :: uint32)), ucast (ucast v :: uint32)]"
  by (simp add: bytesForSchemaID_def BigEndian_PutUint32_def eval_nat_numeral)

lemma uint32_of_bytes:
  "(ucast (ucast u :: byte) OR push_bit 8 (ucast (ucast (drop_bit 8 u) :: byte))
      OR push_bit 16 (ucast (ucast (drop_bit 16 u) :: byte))
      OR push_bit 24 (ucast (ucast (drop_bit 24 u) :: byte))) = (u :: uint32)"
proof (rule bit_word_eqI)
  fix n :: nat
  assume "n < LENGTH(32)"
  then consider "n < 8" | "8 \<le> n" "n < 16" | "16 \<le> n" "n < 24" | "24 \<le> n" "n < 32"
    by fastforce
  then show "bit (ucast (ucast u :: byte) OR push_bit 8 (ucast (ucast (drop_bit 8 u) :: byte))
      OR push_bit 16 (ucast (ucast (drop_bit 16 u) :: byte))
      OR push_bit 24 (ucast (ucast (drop_bit 24 u) :: byte)) :: uint32) n = bit u n"
    by cases (auto simp add: bit_simps)
qed

lemma BigEndian_Uint32_bytes:
  "BigEndian_Uint32 (Slice [ucast (drop_bit 24 u), ucast (drop_bit 16 u), ucast (drop_bit 8 u), ucast u] sp)
     = Returned (u :: uint32)"
  by (simp add: BigEndian_Uint32_def index_def len_def uint32_of_bytes)

lemma getSchemaID_bytes:
  "getSchemaID (Slice [ucast (drop_bit 24 u), ucast (drop_bit 16 u), ucast (drop_bit 8 u), ucast u] sp)
     = Returned (ucast (u :: uint32))"
  by (simp add: getSchemaID_def BigEndian_Uint32_bytes)

lemma slice_frame_1_5:
  "slice_lo_hi (Slice ((m # [a, b, c, d]) @ payload) sp) 1 5 = Returned (Slice [a, b, c, d] (payload @ sp))"
  by (simp add: slice_lo_hi_def cap_def)

lemma slice_frame_5:
  "slice_lo (Slice ((m # [a, b, c, d]) @ payload) sp) 5 = Returned (Slice payload sp)"
  by (simp add: slice_lo_def len_def)

lemma extract_frame:
  "extractSubjectAndVersionFromData topic isKey
     (Slice ((0 # [ucast (drop_bit 24 u), ucast (drop_bit 16 u), ucast (drop_bit 8 u), ucast u]) @ payload) sp)
   = Returned (Inr \<lparr>subject = getTopicNameStrategy topic isKey, versionID = ucast (u :: uint32)\<rparr>)"
  by (simp add: extractSubjectAndVersionFromData_def index_def len_def slice_lo_hi_def cap_def
        getSchemaID_bytes)

section \<open>Resolving a key\<close>

lemma getCodecFor_hit:
  "codecCache c k = Some cd \<Longrightarrow> getCodecFor av c k w = (Inr cd, c, w)"
  by (simp add: getCodecFor_def)

lemma getCodecFor_lookup_fails:
  assumes "codecCache c k = None" and "GetSchemaFor (client c) k (registry w) = (Inl e, r')"
  shows "getCodecFor av c k w = (Inl e, c, \<lparr>registry = r', calls = calls w @ [GetSchemaFor_call k (Inl e)]\<rparr>)"
  using assms by (simp add: getCodecFor_def call_GetSchemaFor_def)

lemma getCodecFor_compile_fails:
  assumes "codecCache c k = None" and "GetSchemaFor (client c) k (registry w) = (Inr text, r')"
    and "goavro_NewCodec av text = Inl e"
  shows "getCodecFor av c k w = (Inl e, c, \<lparr>registry = r', calls = calls w @ [GetSchemaFor_call k (Inr text)]\<rparr>)"
  using assms by (simp add: getCodecFor_def call_GetSchemaFor_def)

lemma getCodecFor_stores:
  assumes "codecCache c k = None" and "GetSchemaFor (client c) k (registry w) = (Inr text, r')"
    and "goavro_NewCodec av text = Inr cd"
  shows "getCodecFor av c k w =
           (Inr cd, c\<lparr>codecCache := (codecCache c)(k \<mapsto> cd)\<rparr>,
            \<lparr>registry = r', calls = calls w @ [GetSchemaFor_call k (Inr text)]\<rparr>)"
  using assms by (simp add: getCodecFor_def call_GetSchemaFor_def)

lemma getCodecFor_Inl_codec:
  "getCodecFor av c k w = (Inl e, c', w') \<Longrightarrow> c' = c"
  by (auto simp add: getCodecFor_def split: option.splits prod.splits sum.splits)

lemma getCodecFor_Inr_cached:
  "getCodecFor av c k w = (Inr cd, c', w') \<Longrightarrow> codecCache c' k = Some cd"
  by (auto simp add: getCodecFor_def split: option.splits prod.splits sum.splits)

lemma Decode_resolution_fails:
  assumes "extractSubjectAndVersionFromData topic isKey data = Returned (Inr k)"
    and "getCodecFor av c k w = (Inl e, c', w')"
  shows "Decode av c topic isKey data w = (Returned (None, Some e), c, w')"
  using assms getCodecFor_Inl_codec [OF assms(2)] by (simp add: Decode_def)

lemma Encode_resolution_fails:
  assumes "call_GetVersionFor (client c) (getTopicNameStrategy topic isKey) schema w = (Inr ver, w0)"
    and "getCodecFor av c \<lparr>subject = getTopicNameStrategy topic isKey, versionID = ver\<rparr> w0 = (Inl e, c', w')"
  shows "Encode av c topic isKey schema native w = (Returned (None, Some e), c, w')"
  using assms getCodecFor_Inl_codec [OF assms(2)] by (simp add: Encode_def)

section \<open>Decoding malformed input\<close>

text \<open>
  C1. The claim: for input shorter than 5 bytes \<open>Decode\<close> returns a framing error and no
  value, without panicking and without touching the registry or the cache. The code has no
  length check. On the empty slice the read of \<open>data[0]\<close> panics with an index out of
  range, whatever the codec, topic and flag; nothing is returned.
\<close>

theorem Decode_empty_input_panics:
  "Decode av c topic isKey (Slice [] sp) w = (Panicked (IndexOutOfRange 0 0), c, w)"
  by (simp add: Decode_def extractSubjectAndVersionFromData_def index_def len_def)

text \<open>
  The same happens further on for a short input that starts with the magic byte and has
  no spare capacity: the slice expression \<open>data[1:5]\<close> panics.
\<close>

lemma Decode_short_zero_magic_panics:
  assumes "cap data < 5" and "index data 0 = Returned 0"
  shows "Decode av c topic isKey data w = (Panicked (SliceBoundsOutOfRange 1 5), c, w)"
  using assms by (simp add: Decode_def extractSubjectAndVersionFromData_def slice_lo_hi_def)

text \<open>
  C2, as amended. For every input of length at least 1 whose byte 0 is not zero, \<open>Decode\<close>
  returns no value and the error \<open>Unknown magic byte\<close>, the same for every such byte; the
  codec (with its cache) and the world (registry state and trace of calls) are left as
  they were, so no version is parsed, no registry call is made and the cache is not
  touched.
\<close>

theorem Decode_nonzero_magic:
  assumes "elems data \<noteq> []" and "hd (elems data) \<noteq> 0"
  shows "Decode av c topic isKey data w =
           (Returned (None, Some (errorString ''Unknown magic byte'')), c, w)"
proof -
  from assms(1) have "index data 0 = Returned (hd (elems data))"
    by (cases "elems data") (simp_all add: index_def len_def)
  with assms(2) show ?thesis
    by (simp add: Decode_def extractSubjectAndVersionFromData_def)
qed

text \<open>The scenario of the specification: the input \<open>01 00 00 00 01\<close>.\<close>

theorem Decode_nonzero_magic_witness:
  "elems (Slice [1, 0, 0, 0, 1] []) \<noteq> [] \<and> hd (elems (Slice [1, 0, 0, 0, 1] [])) \<noteq> 0
   \<and> Decode demo_goavro (NewCodec (demo_client 3 ''long'')) ''orders'' False (Slice [1, 0, 0, 0, 1] []) world0
       = (Returned (None, Some (errorString ''Unknown magic byte'')), NewCodec (demo_client 3 ''long''), world0)"
  using Decode_nonzero_magic [of "Slice [1, 0, 0, 0, 1] []" demo_goavro "NewCodec (demo_client 3 ''long'')"
      "''orders''" False world0]
  by simp

text \<open>
  C2 as stated asks for an error that carries the offending byte. The error value is a
  fixed message: the magic bytes 1 and 2 give the very same error.
\<close>

theorem Decode_magic_error_carries_no_byte:
  "fst (Decode demo_goavro (NewCodec (demo_client 3 ''long'')) ''orders'' False (Slice [1, 0, 0, 0, 1] []) world0)
     = Returned (None, Some (errorString ''Unknown magic byte''))
   \<and> fst (Decode demo_goavro (NewCodec (demo_client 3 ''long'')) ''orders'' False (Slice [2, 0, 0, 0, 1] []) world0)
     = Returned (None, Some (errorString ''Unknown magic byte''))"
  by (simp add: Decode_def extractSubjectAndVersionFromData_def index_def len_def)

section \<open>Encoding\<close>

lemma Encode_outcome:
  "(\<exists>e. fst (Encode av c topic isKey schema native w) = Returned (None, Some e))
   \<or> (\<exists>ver w0 cd payload.
         call_GetVersionFor (client c) (getTopicNameStrategy topic isKey) schema w = (Inr ver, w0)
       \<and> fst (getCodecFor av c \<lparr>subject = getTopicNameStrategy topic isKey, versionID = ver\<rparr> w0) = Inr cd
       \<and> BinaryFromNative av cd [] native = Inr payload
       \<and> fst (Encode av c topic isKey schema native w)
           = Returned (Some (0 # [ucast (drop_bit 24 (ucast ver :: uint32)), ucast (drop_bit 16 (ucast ver :: uint32)),
                                 ucast (drop_bit 8 (ucast ver :: uint32)), ucast (ucast ver :: uint32)] @ payload), None))"
  by (auto simp add: Encode_def Let_def bytesForSchemaID_Returned split: prod.splits sum.splits)

lemma Encode_success:
  assumes "call_GetVersionFor (client c) (getTopicNameStrategy topic isKey) schema w = (Inr ver, w0)"
    and "getCodecFor av c \<lparr>subject = getTopicNameStrategy topic isKey, versionID = ver\<rparr> w0 = (Inr cd, c', w')"
    and "BinaryFromNative av cd [] native = Inr payload"
  shows "Encode av c topic isKey schema native w
           = (Returned (Some (0 # [ucast (drop_bit 24 (ucast ver :: uint32)), ucast (drop_bit 16 (ucast ver :: uint32)),
                                   ucast (drop_bit 8 (ucast ver :: uint32)), ucast (ucast ver :: uint32)] @ payload), None),
              c', w')"
  using assms by (simp add: Encode_def bytesForSchemaID_Returned)

text \<open>
  C4, as amended. \<open>Encode\<close> is determined by its three steps. When the registry returns
  an error for the version, when the key does not resolve, or when the codec rejects the
  native value, \<open>Encode\<close> returns that error and no frame. When all three succeed it
  returns no error and exactly the magic byte \<open>0x00\<close>, then the four bytes that
  \<open>bytesForSchemaID\<close> writes, whose big-endian value is the version the registry returned
  taken modulo \<open>2^32\<close> (the version itself when it lies in \<open>0 .. 2^32 - 1\<close>), then the
  payload that the resolved codec serialized. There is no other outcome.
\<close>

theorem Encode_frame_layout:
  "(call_GetVersionFor (client c) (getTopicNameStrategy topic isKey) schema w = (Inl e, w0) \<longrightarrow>
      Encode av c topic isKey schema native w = (Returned (None, Some e), c, w0))
   \<and> (call_GetVersionFor (client c) (getTopicNameStrategy topic isKey) schema w = (Inr ver, w0)
      \<and> getCodecFor av c \<lparr>subject = getTopicNameStrategy topic isKey, versionID = ver\<rparr> w0 = (Inl e, c', w') \<longrightarrow>
      Encode av c topic isKey schema native w = (Returned (None, Some e), c', w'))
   \<and> (call_GetVersionFor (client c) (getTopicNameStrategy topic isKey) schema w = (Inr ver, w0)
      \<and> getCodecFor av c \<lparr>subject = getTopicNameStrategy topic isKey, versionID = ver\<rparr> w0 = (Inr cd, c', w')
      \<and> BinaryFromNative av cd [] native = Inl e \<longrightarrow>
      Encode av c topic isKey schema native w = (Returned (None, Some e), c', w'))
   \<and> (call_GetVersionFor (client c) (getTopicNameStrategy topic isKey) schema w = (Inr ver, w0)
      \<and> getCodecFor av c \<lparr>subject = getTopicNameStrategy topic isKey, versionID = ver\<rparr> w0 = (Inr cd, c', w')
      \<and> BinaryFromNative av cd [] native = Inr payload \<longrightarrow>
      (\<exists>vb. bytesForSchemaID ver = Returned vb \<and> length vb = 4
            \<and> int (big_endian_value vb) = sint ver mod 2 ^ 32
            \<and> (0 \<le> sint ver \<and> sint ver < 2 ^ 32 \<longrightarrow> int (big_endian_value vb) = sint ver)
            \<and> Encode av c topic isKey schema native w = (Returned (Some ([0] @ vb @ payload), None), c', w')))
   \<and> ((\<exists>err. fst (Encode av c topic isKey schema native w) = Returned (None, Some err))
      \<or> (\<exists>frame. fst (Encode av c topic isKey schema native w) = Returned (Some frame, None)))"
proof -
  let ?subj = "getTopicNameStrategy topic isKey"
  have 1: "Encode av c topic isKey schema native w = (Returned (None, Some e), c, w0)"
    if "call_GetVersionFor (client c) ?subj schema w = (Inl e, w0)"
    using that by (simp add: Encode_def)
  have 2: "Encode av c topic isKey schema native w = (Returned (None, Some e), c', w')"
    if "call_GetVersionFor (client c) ?subj schema w = (Inr ver, w0)"
      and "getCodecFor av c \<lparr>subject = ?subj, versionID = ver\<rparr> w0 = (Inl e, c', w')"
    using that by (simp add: Encode_def)
  have 3: "Encode av c topic isKey schema native w = (Returned (None, Some e), c', w')"
    if "call_GetVersionFor (client c) ?subj schema w = (Inr ver, w0)"
      and "getCodecFor av c \<lparr>subject = ?subj, versionID = ver\<rparr> w0 = (Inr cd, c', w')"
      and "BinaryFromNative av cd [] native = Inl e"
    using that by (simp add: Encode_def bytesForSchemaID_Returned)
  have 4: "\<exists>vb. bytesForSchemaID ver = Returned vb \<and> length vb = 4
            \<and> int (big_endian_value vb) = sint ver mod 2 ^ 32
            \<and> (0 \<le> sint ver \<and> sint ver < 2 ^ 32 \<longrightarrow> int (big_endian_value vb) = sint ver)
            \<and> Encode av c topic isKey schema native w = (Returned (Some ([0] @ vb @ payload), None), c', w')"
    if "call_GetVersionFor (client c) ?subj schema w = (Inr ver, w0)"
      and "getCodecFor av c \<lparr>subject = ?subj, versionID = ver\<rparr> w0 = (Inr cd, c', w')"
      and "BinaryFromNative av cd [] native = Inr payload"
  proof -
    define vb where "vb = [ucast (drop_bit 24 (ucast ver :: uint32)), ucast (drop_bit 16 (ucast ver :: uint32)),
                           ucast (drop_bit 8 (ucast ver :: uint32)), ucast (ucast ver :: uint32) :: byte]"
    have a: "bytesForSchemaID ver = Returned vb"
      by (simp only: vb_def bytesForSchemaID_Returned)
    have l: "length vb = 4"
      by (simp add: vb_def)
    have "big_endian_value vb = nat (sint ver mod 2 ^ 32)"
      unfolding vb_def by (simp only: big_endian_value_bytes unat_ucast_go_int)
    then have b: "int (big_endian_value vb) = sint ver mod 2 ^ 32"
      by simp
    have r: "int (big_endian_value vb) = sint ver" if "0 \<le> sint ver \<and> sint ver < 2 ^ 32"
      using b that by simp
    have f: "Encode av c topic isKey schema native w = (Returned (Some ([0] @ vb @ payload), None), c', w')"
      using Encode_success [OF \<open>call_GetVersionFor (client c) ?subj schema w = (Inr ver, w0)\<close>
          \<open>getCodecFor av c \<lparr>subject = ?subj, versionID = ver\<rparr> w0 = (Inr cd, c', w')\<close>
          \<open>BinaryFromNative av cd [] native = Inr payload\<close>]
      by (simp add: vb_def)
    from a l b r f show ?thesis by blast
  qed
  have 5: "(\<exists>err. fst (Encode av c topic isKey schema native w) = Returned (None, Some err))
      \<or> (\<exists>frame. fst (Encode av c topic isKey schema native w) = Returned (Some frame, None))"
    using Encode_outcome [of av c topic isKey schema native w] by blast
  from 1 2 3 4 5 show ?thesis by blast
qed

text \<open>
  The scenario of the specification: the schema is registered as version 3 and the frame
  is \<open>00 00 00 00 03\<close> followed by the payload. A schema that is not registered gives the
  registry's error and no frame.
\<close>

theorem Encode_frame_layout_witness:
  "fst (Encode demo_goavro (demo_codec 3 ''long'') ''orders'' False ''long'' (Some [7]) world0)
     = Returned (Some [0, 0, 0, 0, 3, 7], None)
   \<and> fst (Encode demo_goavro (demo_codec 3 ''long'') ''orders'' False ''string'' (Some [7]) world0)
     = Returned (None, Some (externalError ''schema not found''))
   \<and> fst (Encode demo_goavro (demo_codec 3 ''long'') ''orders'' False ''long'' None world0)
     = Returned (None, Some (externalError ''cannot encode''))"
proof -
  let ?c = "demo_codec 3 ''long''"
  let ?w0 = "\<lparr>registry = 1::nat, calls = [GetVersionFor_call ''orders-value'' ''long'']\<rparr>"
  let ?w0' = "\<lparr>registry = 1::nat, calls = [GetVersionFor_call ''orders-value'' ''string'']\<rparr>"
  let ?k = "\<lparr>subject = getTopicNameStrategy ''orders'' False, versionID = 3\<rparr>"
  have ver: "call_GetVersionFor (client ?c) (getTopicNameStrategy ''orders'' False) ''long'' world0 = (Inr 3, ?w0)"
    by (simp add: call_GetVersionFor_def demo_codec_def NewCodec_def demo_client_def world0_def
        getTopicNameStrategy_def)
  have nover: "call_GetVersionFor (client ?c) (getTopicNameStrategy ''orders'' False) ''string'' world0
                 = (Inl (externalError ''schema not found''), ?w0')"
    by (simp add: call_GetVersionFor_def demo_codec_def NewCodec_def demo_client_def world0_def
        getTopicNameStrategy_def)
  obtain c' w' where res: "getCodecFor demo_goavro ?c ?k ?w0 = (Inr ''long'', c', w')"
    by (simp add: getCodecFor_def call_GetSchemaFor_def demo_codec_def NewCodec_def demo_client_def
        demo_goavro_def getTopicNameStrategy_def)
  have enc: "BinaryFromNative demo_goavro ''long'' [] (Some [7]) = Inr [7]"
    by (simp add: demo_goavro_def)
  have noenc: "BinaryFromNative demo_goavro ''long'' [] None = Inl (externalError ''cannot encode'')"
    by (simp add: demo_goavro_def)
  have b3: "bytesForSchemaID 3 = Returned [0, 0, 0, 3]"
    by (simp add: bytesForSchemaID_Returned)
  from Encode_frame_layout [of ?c "''orders''" False "''long''" world0 "externalError ''cannot encode''" ?w0
      demo_goavro "Some [7]" 3 c' w' "''long''" "[7]"] ver res enc b3
  have A: "fst (Encode demo_goavro ?c ''orders'' False ''long'' (Some [7]) world0)
             = Returned (Some [0, 0, 0, 0, 3, 7], None)"
    by auto
  from Encode_frame_layout [of ?c "''orders''" False "''string''" world0 "externalError ''schema not found''" ?w0'
      demo_goavro "Some [7]" 3 c' w' "''long''" "[7]"] nover
  have B: "fst (Encode demo_goavro ?c ''orders'' False ''string'' (Some [7]) world0)
             = Returned (None, Some (externalError ''schema not found''))"
    by auto
  from Encode_frame_layout [of ?c "''orders''" False "''long''" world0 "externalError ''cannot encode''" ?w0
      demo_goavro None 3 c' w' "''long''" "[7]"] ver res noenc
  have C: "fst (Encode demo_goavro ?c ''orders'' False ''long'' None world0)
             = Returned (None, Some (externalError ''cannot encode''))"
    by auto
  from A B C show ?thesis by simp
qed

text \<open>
  C4 as stated takes the four bytes for the encoding of the version the registry returned.
  When the registry returns \<open>2^32 + 3\<close>, \<open>Encode\<close> succeeds and the four bytes encode 3.
\<close>

theorem Encode_frame_truncates_version:
  "fst (call_GetVersionFor (client (demo_codec 4294967299 ''long'')) ''orders-value'' ''long'' world0)
     = Inr 4294967299
   \<and> fst (Encode demo_goavro (demo_codec 4294967299 ''long'') ''orders'' False ''long'' (Some [7]) world0)
     = Returned (Some ([0] @ [0, 0, 0, 3] @ [7]), None)
   \<and> big_endian_value [0, 0, 0, 3] = 3
   \<and> sint (4294967299 :: go_int) = 4294967299"
proof -
  let ?c = "demo_codec 4294967299 ''long''"
  let ?w0 = "\<lparr>registry = 1::nat, calls = [GetVersionFor_call ''orders-value'' ''long'']\<rparr>"
  let ?k = "\<lparr>subject = getTopicNameStrategy ''orders'' False, versionID = 4294967299\<rparr>"
  have ver: "call_GetVersionFor (client ?c) (getTopicNameStrategy ''orders'' False) ''long'' world0
               = (Inr 4294967299, ?w0)"
    by (simp add: call_GetVersionFor_def demo_codec_def NewCodec_def demo_client_def world0_def
        getTopicNameStrategy_def)
  obtain c' w' where res: "getCodecFor demo_goavro ?c ?k ?w0 = (Inr ''long'', c', w')"
    by (simp add: getCodecFor_def call_GetSchemaFor_def demo_codec_def NewCodec_def demo_client_def
        demo_goavro_def getTopicNameStrategy_def)
  have enc: "BinaryFromNative demo_goavro ''long'' [] (Some [7]) = Inr [7]"
    by (simp add: demo_goavro_def)
  have E: "fst (Encode demo_goavro ?c ''orders'' False ''long'' (Some [7]) world0)
             = Returned (Some ([0] @ [0, 0, 0, 3] @ [7]), None)"
    using Encode_success [OF ver res enc] by simp
  have V: "fst (call_GetVersionFor (client ?c) ''orders-value'' ''long'' world0) = Inr 4294967299"
    using ver by (simp add: getTopicNameStrategy_def)
  have B: "big_endian_value [0, 0, 0, 3] = 3"
    by (simp add: big_endian_value_def)
  have S: "sint (4294967299 :: go_int) = 4294967299"
    by simp
  from V E B S show ?thesis by simp
qed

section \<open>Failed resolutions\<close>

text \<open>
  C7. When the key is not cached and its resolution fails, because the registry answers
  the lookup with an error or because the schema it returns does not compile, that error
  is what \<open>getCodecFor\<close> returns and the codec, cache included, is left exactly as it
  was. A \<open>Decode\<close> whose frame names the key, and an \<open>Encode\<close> for which the registry
  gave the key's version, then return that error with no value and no frame, and leave
  the codec unchanged as well.
\<close>

theorem failed_resolution_not_cached:
  assumes miss: "codecCache c k = None"
    and fails: "(\<exists>r'. GetSchemaFor (client c) k (registry w) = (Inl e, r'))
              \<or> (\<exists>text r'. GetSchemaFor (client c) k (registry w) = (Inr text, r')
                             \<and> goavro_NewCodec av text = Inl e)"
  shows "fst (getCodecFor av c k w) = Inl e \<and> fst (snd (getCodecFor av c k w)) = c
       \<and> (extractSubjectAndVersionFromData topic isKey data = Returned (Inr k) \<longrightarrow>
            fst (Decode av c topic isKey data w) = Returned (None, Some e)
          \<and> fst (snd (Decode av c topic isKey data w)) = c)
       \<and> (call_GetVersionFor (client c) (getTopicNameStrategy topic isKey) schema w0 = (Inr (versionID k), w)
            \<and> subject k = getTopicNameStrategy topic isKey \<longrightarrow>
            fst (Encode av c topic isKey schema native w0) = Returned (None, Some e)
          \<and> fst (snd (Encode av c topic isKey schema native w0)) = c)"
proof -
  from fails obtain w' where g: "getCodecFor av c k w = (Inl e, c, w')"
  proof
    assume "\<exists>r'. GetSchemaFor (client c) k (registry w) = (Inl e, r')"
    then obtain r' where "GetSchemaFor (client c) k (registry w) = (Inl e, r')" ..
    from getCodecFor_lookup_fails [OF miss this] show ?thesis by (rule that)
  next
    assume "\<exists>text r'. GetSchemaFor (client c) k (registry w) = (Inr text, r')
                             \<and> goavro_NewCodec av text = Inl e"
    then obtain schemaText r' where "GetSchemaFor (client c) k (registry w) = (Inr schemaText, r')"
      and "goavro_NewCodec av schemaText = Inl e" by blast
    from getCodecFor_compile_fails [OF miss this] show ?thesis by (rule that)
  qed
  have d: "fst (Decode av c topic isKey data w) = Returned (None, Some e)
          \<and> fst (snd (Decode av c topic isKey data w)) = c"
    if "extractSubjectAndVersionFromData topic isKey data = Returned (Inr k)"
    using Decode_resolution_fails [OF that g] by simp
  have e: "fst (Encode av c topic isKey schema native w0) = Returned (None, Some e)
          \<and> fst (snd (Encode av c topic isKey schema native w0)) = c"
    if "call_GetVersionFor (client c) (getTopicNameStrategy topic isKey) schema w0 = (Inr (versionID k), w)"
      and "subject k = getTopicNameStrategy topic isKey"
  proof -
    from that(2) have "\<lparr>subject = getTopicNameStrategy topic isKey, versionID = versionID k\<rparr> = k"
      by simp
    with g have "getCodecFor av c \<lparr>subject = getTopicNameStrategy topic isKey, versionID = versionID k\<rparr> w
                   = (Inl e, c, w')" by simp
    from Encode_resolution_fails [OF that(1) this] show ?thesis by simp
  qed
  from g d e show ?thesis by simp
qed

text \<open>
  An instance: the registry knows version 3, but its schema text does not compile.
\<close>

theorem failed_resolution_not_cached_witness:
  "codecCache (demo_codec 3 []) \<lparr>subject = ''orders-value'', versionID = 3\<rparr> = None
   \<and> GetSchemaFor (client (demo_codec 3 [])) \<lparr>subject = ''orders-value'', versionID = 3\<rparr> (1::nat)
       = (Inr [], 2)
   \<and> goavro_NewCodec demo_goavro [] = Inl (externalError ''cannot compile'')
   \<and> fst (Decode demo_goavro (demo_codec 3 []) ''orders'' False (Slice [0, 0, 0, 0, 3, 1] [])
            \<lparr>registry = 1, calls = [GetVersionFor_call ''orders-value'' []]\<rparr>)
       = Returned (None, Some (externalError ''cannot compile''))
   \<and> fst (snd (Decode demo_goavro (demo_codec 3 []) ''orders'' False (Slice [0, 0, 0, 0, 3, 1] [])
            \<lparr>registry = 1, calls = [GetVersionFor_call ''orders-value'' []]\<rparr>))
       = demo_codec 3 []
   \<and> fst (Encode demo_goavro (demo_codec 3 []) ''orders'' False [] (Some [1]) world0)
       = Returned (None, Some (externalError ''cannot compile''))
   \<and> fst (snd (Encode demo_goavro (demo_codec 3 []) ''orders'' False [] (Some [1]) world0))
       = demo_codec 3 []"
proof -
  let ?c = "demo_codec 3 []"
  let ?k = "\<lparr>subject = ''orders-value'', versionID = 3\<rparr>"
  let ?w = "\<lparr>registry = 1::nat, calls = [GetVersionFor_call ''orders-value'' []]\<rparr>"
  let ?e = "externalError ''cannot compile''"
  have miss: "codecCache ?c ?k = None"
    by (simp add: demo_codec_def NewCodec_def)
  have look: "GetSchemaFor (client ?c) ?k (1::nat) = (Inr [], 2)"
    by (simp add: demo_codec_def NewCodec_def demo_client_def)
  have comp: "goavro_NewCodec demo_goavro [] = Inl ?e"
    by (simp add: demo_goavro_def)
  have fails: "(\<exists>r'. GetSchemaFor (client ?c) ?k (registry ?w) = (Inl ?e, r'))
              \<or> (\<exists>text r'. GetSchemaFor (client ?c) ?k (registry ?w) = (Inr text, r')
                             \<and> goavro_NewCodec demo_goavro text = Inl ?e)"
    using look comp by simp
  have ex: "extractSubjectAndVersionFromData ''orders'' False (Slice [0, 0, 0, 0, 3, 1] []) = Returned (Inr ?k)"
    by (simp add: extractSubjectAndVersionFromData_def index_def len_def slice_lo_hi_def cap_def
        getSchemaID_def BigEndian_Uint32_def getTopicNameStrategy_def)
  have ver: "call_GetVersionFor (client ?c) (getTopicNameStrategy ''orders'' False) [] world0
               = (Inr (versionID ?k), ?w)"
    by (simp add: call_GetVersionFor_def demo_codec_def NewCodec_def demo_client_def world0_def getTopicNameStrategy_def)
  have subj: "subject ?k = getTopicNameStrategy ''orders'' False"
    by (simp add: getTopicNameStrategy_def)
  note T = failed_resolution_not_cached [OF miss fails, of "''orders''" False "Slice [0, 0, 0, 0, 3, 1] []" "[]" world0 "Some [1]"]
  from T ex ver subj
  have "(fst (Decode demo_goavro ?c ''orders'' False (Slice [0, 0, 0, 0, 3, 1] []) ?w) = Returned (None, Some ?e)
         \<and> fst (snd (Decode demo_goavro ?c ''orders'' False (Slice [0, 0, 0, 0, 3, 1] []) ?w)) = ?c)
       \<and> (fst (Encode demo_goavro ?c ''orders'' False [] (Some [1]) world0) = Returned (None, Some ?e)
         \<and> fst (snd (Encode demo_goavro ?c ''orders'' False [] (Some [1]) world0)) = ?c)"
    by blast
  with miss look comp show ?thesis by simp
qed

section \<open>The single-schema encoder\<close>

text \<open>
  C9. With \<open>autoRegister\<close> off, \<open>NewEncoder\<close> asks the registry whether the schema is
  registered under the subject and makes no other registry call; in particular
  \<open>RegisterNewSchema\<close> is not called. When the answer is no, it returns no encoder and
  an error whose message names the subject and the schema. When the answer is yes, the
  encoder it returns is bound to the version of that answer (and no encoder is returned if
  the schema text does not compile).
\<close>

theorem NewEncoder_without_autoRegister:
  "(IsRegistered cl subjectName avroSchema (registry w) = (Inr (False, sch), r') \<longrightarrow>
      NewEncoder av cl False subjectName avroSchema w
        = ((None, Some (errorString (''There is no registration on subject '' @ subjectName
                                       @ '' for schema '' @ avroSchema))),
           \<lparr>registry = r', calls = calls w @ [IsRegistered_call subjectName avroSchema]\<rparr>))
   \<and> (IsRegistered cl subjectName avroSchema (registry w) = (Inr (True, sch), r') \<longrightarrow>
      NewEncoder av cl False subjectName avroSchema w
        = ((case goavro_NewCodec av avroSchema of
              Inl codecErr \<Rightarrow> (None, Some codecErr)
            | Inr cd \<Rightarrow> (Some \<lparr>subjectVersion = Version sch, codec = cd\<rparr>, None)),
           \<lparr>registry = r', calls = calls w @ [IsRegistered_call subjectName avroSchema]\<rparr>))"
  by (simp add: NewEncoder_def call_IsRegistered_def split: sum.splits)

text \<open>Both cases on a registry that knows the schema \<open>long\<close> as version 3.\<close>

theorem NewEncoder_without_autoRegister_witness:
  "NewEncoder demo_goavro (demo_registry 3 ''long'') False ''orders-value'' ''string'' world0
     = ((None, Some (errorString ''There is no registration on subject orders-value for schema string'')),
        \<lparr>registry = 1, calls = [IsRegistered_call ''orders-value'' ''string'']\<rparr>)
   \<and> NewEncoder demo_goavro (demo_registry 3 ''long'') False ''orders-value'' ''long'' world0
     = ((Some \<lparr>subjectVersion = 3, codec = ''long''\<rparr>, None),
        \<lparr>registry = 1, calls = [IsRegistered_call ''orders-value'' ''long'']\<rparr>)"
proof -
  have a: "IsRegistered (demo_registry 3 ''long'') ''orders-value'' ''string'' (registry world0)
             = (Inr (False, \<lparr>Schema_text = [], Subject = [], Version = 0, ID = 0\<rparr>), 1)"
    by (simp add: demo_registry_def world0_def)
  have b: "IsRegistered (demo_registry 3 ''long'') ''orders-value'' ''long'' (registry world0)
             = (Inr (True, \<lparr>Schema_text = ''long'', Subject = ''orders-value'', Version = 3, ID = 1\<rparr>), 1)"
    by (simp add: demo_registry_def world0_def)
  from a NewEncoder_without_autoRegister [of "demo_registry 3 ''long''" "''orders-value''" "''string''" world0
      "\<lparr>Schema_text = [], Subject = [], Version = 0, ID = 0\<rparr>" 1 demo_goavro]
  have "NewEncoder demo_goavro (demo_registry 3 ''long'') False ''orders-value'' ''string'' world0
     = ((None, Some (errorString ''There is no registration on subject orders-value for schema string'')),
        \<lparr>registry = 1, calls = [IsRegistered_call ''orders-value'' ''string'']\<rparr>)"
    by (simp add: world0_def)
  moreover
  from b NewEncoder_without_autoRegister [of "demo_registry 3 ''long''" "''orders-value''" "''long''" world0
      "\<lparr>Schema_text = ''long'', Subject = ''orders-value'', Version = 3, ID = 1\<rparr>" 1 demo_goavro]
  have "NewEncoder demo_goavro (demo_registry 3 ''long'') False ''orders-value'' ''long'' world0
     = ((Some \<lparr>subjectVersion = 3, codec = ''long''\<rparr>, None),
        \<lparr>registry = 1, calls = [IsRegistered_call ''orders-value'' ''long'']\<rparr>)"
    by (simp add: world0_def demo_goavro_def)
  ultimately show ?thesis by simp
qed

section \<open>The naming strategy\<close>






section \<open>The width of the version field\<close>

lemma getSchemaID_bytesForSchemaID:
  "\<exists>vb. bytesForSchemaID v = Returned vb \<and> length vb = 4
        \<and> big_endian_value vb = nat (sint v mod 2 ^ 32)
        \<and> getSchemaID (Slice vb sp) = Returned (take_bit 32 v)
        \<and> extractSubjectAndVersionFromData topic isKey (Slice ((0 # vb) @ payload) sp')
            = Returned (Inr \<lparr>subject = getTopicNameStrategy topic isKey, versionID = take_bit 32 v\<rparr>)"
proof -
  define vb where "vb = [ucast (drop_bit 24 (ucast v :: uint32)), ucast (drop_bit 16 (ucast v :: uint32)),
                         ucast (drop_bit 8 (ucast v :: uint32)), ucast (ucast v :: uint32) :: byte]"
  have 1: "bytesForSchemaID v = Returned vb"
    by (simp only: vb_def bytesForSchemaID_Returned)
  have 2: "length vb = 4"
    by (simp add: vb_def)
  have 3: "big_endian_value vb = nat (sint v mod 2 ^ 32)"
    unfolding vb_def by (simp only: big_endian_value_bytes unat_ucast_go_int)
  have 4: "getSchemaID (Slice vb sp) = Returned (take_bit 32 v)"
    unfolding vb_def by (simp only: getSchemaID_bytes ucast_ucast_go_int)
  have 5: "extractSubjectAndVersionFromData topic isKey (Slice ((0 # vb) @ payload) sp')
            = Returned (Inr \<lparr>subject = getTopicNameStrategy topic isKey, versionID = take_bit 32 v\<rparr>)"
    unfolding vb_def by (simp only: extract_frame ucast_ucast_go_int)
  from 1 2 3 4 5 show ?thesis by blast
qed

lemma out_of_range_take_bit:
  assumes "\<not> (0 \<le> sint (v :: go_int) \<and> sint v < 2 ^ 32)"
  shows "take_bit 32 v \<noteq> v"
proof
  assume "take_bit 32 v = v"
  then have "sint v = sint v mod 2 ^ 32"
    using sint_take_bit_32 [of v] by simp
  moreover have "0 \<le> sint v mod 2 ^ 32" and "sint v mod 2 ^ 32 < 2 ^ 32"
    by simp_all
  ultimately have "0 \<le> sint v \<and> sint v < 2 ^ 32"
    by simp
  with assms show False ..
qed

text \<open>
  C10. The version field is 32 bits wide. \<open>bytesForSchemaID\<close> writes four bytes whose
  big-endian value is the version modulo \<open>2^32\<close>, and \<open>getSchemaID\<close> reads them back as
  that residue: the version itself when it lies in \<open>0 .. 2^32 - 1\<close>, a different number
  when it is \<open>2^32\<close> or more, or negative. So when the registry returns such a version,
  the frame that \<open>Encode\<close> produces carries the truncated bytes, and the decode path
  extracts a version other than the one the registry returned.
\<close>

theorem version_field_wraps:
  "\<exists>vb v'. bytesForSchemaID v = Returned vb \<and> length vb = 4
        \<and> big_endian_value vb = nat (sint v mod 2 ^ 32)
        \<and> getSchemaID (Slice vb sp) = Returned v'
        \<and> sint v' = sint v mod 2 ^ 32
        \<and> (0 \<le> sint v \<and> sint v < 2 ^ 32 \<longrightarrow> v' = v)
        \<and> (\<not> (0 \<le> sint v \<and> sint v < 2 ^ 32) \<longrightarrow> v' \<noteq> v)
        \<and> (call_GetVersionFor (client c) (getTopicNameStrategy topic isKey) schema w = (Inr v, w0)
             \<and> getCodecFor av c \<lparr>subject = getTopicNameStrategy topic isKey, versionID = v\<rparr> w0 = (Inr cd, c', w')
             \<and> BinaryFromNative av cd [] native = Inr payload \<longrightarrow>
               fst (Encode av c topic isKey schema native w) = Returned (Some ((0 # vb) @ payload), None)
             \<and> extractSubjectAndVersionFromData topic isKey (Slice ((0 # vb) @ payload) sp')
                 = Returned (Inr \<lparr>subject = getTopicNameStrategy topic isKey, versionID = v'\<rparr>))"
proof -
  from getSchemaID_bytesForSchemaID [of v sp topic isKey payload sp']
  obtain vb where vb: "bytesForSchemaID v = Returned vb" and "length vb = 4"
    "big_endian_value vb = nat (sint v mod 2 ^ 32)"
    "getSchemaID (Slice vb sp) = Returned (take_bit 32 v)"
    and ex: "extractSubjectAndVersionFromData topic isKey (Slice ((0 # vb) @ payload) sp')
       = Returned (Inr \<lparr>subject = getTopicNameStrategy topic isKey, versionID = take_bit 32 v\<rparr>)"
    by blast
  moreover have "sint (take_bit 32 v) = sint v mod 2 ^ 32"
    by (rule sint_take_bit_32)
  moreover have "0 \<le> sint v \<and> sint v < 2 ^ 32 \<longrightarrow> take_bit 32 v = v"
    using in_range_take_bit [of v] by blast
  moreover have "\<not> (0 \<le> sint v \<and> sint v < 2 ^ 32) \<longrightarrow> take_bit 32 v \<noteq> v"
    using out_of_range_take_bit [of v] by blast
  moreover have "fst (Encode av c topic isKey schema native w) = Returned (Some ((0 # vb) @ payload), None)"
    if "call_GetVersionFor (client c) (getTopicNameStrategy topic isKey) schema w = (Inr v, w0)"
      and "getCodecFor av c \<lparr>subject = getTopicNameStrategy topic isKey, versionID = v\<rparr> w0 = (Inr cd, c', w')"
      and "BinaryFromNative av cd [] native = Inr payload"
    using Encode_success [OF that] vb by (simp add: bytesForSchemaID_Returned)
  ultimately show ?thesis by blast
qed

text \<open>
  Version 3 comes back as 3; version \<open>2^32 + 3\<close> is written as 3 as well, in the frame
  that \<open>Encode\<close> returns, and is extracted as 3.
\<close>

theorem version_field_wraps_witness:
  "bytesForSchemaID 3 = Returned [0, 0, 0, 3]
   \<and> getSchemaID (Slice [0, 0, 0, 3] []) = Returned 3
   \<and> bytesForSchemaID 4294967299 = Returned [0, 0, 0, 3]
   \<and> (3 :: go_int) \<noteq> 4294967299
   \<and> fst (Encode demo_goavro (demo_codec 4294967299 ''long'') ''orders'' False ''long'' (Some [7]) world0)
       = Returned (Some [0, 0, 0, 0, 3, 7], None)
   \<and> extractSubjectAndVersionFromData ''orders'' False (Slice [0, 0, 0, 0, 3, 7] [])
       = Returned (Inr \<lparr>subject = ''orders-value'', versionID = 3\<rparr>)"
proof -
  let ?w0 = "\<lparr>registry = 1::nat, calls = [GetVersionFor_call ''orders-value'' ''long'']\<rparr>"
  let ?k = "\<lparr>subject = getTopicNameStrategy ''orders'' False, versionID = 4294967299\<rparr>"
  have b3: "bytesForSchemaID 3 = Returned [0, 0, 0, 3]"
    by (simp add: bytesForSchemaID_Returned)
  have b4: "bytesForSchemaID 4294967299 = Returned [0, 0, 0, 3]"
    by (simp add: bytesForSchemaID_Returned)
  have g: "getSchemaID (Slice [0, 0, 0, 3] []) = Returned 3"
    by (simp add: getSchemaID_def BigEndian_Uint32_def index_def len_def)
  have in3: "0 \<le> sint (3 :: go_int) \<and> sint (3 :: go_int) < 2 ^ 32"
    by simp
  have out4: "\<not> (0 \<le> sint (4294967299 :: go_int) \<and> sint (4294967299 :: go_int) < 2 ^ 32)"
    by simp
  have ver: "call_GetVersionFor (client (demo_codec 4294967299 ''long'')) (getTopicNameStrategy ''orders'' False)
               ''long'' world0 = (Inr 4294967299, ?w0)"
    by (simp add: call_GetVersionFor_def demo_codec_def NewCodec_def demo_client_def world0_def
        getTopicNameStrategy_def)
  obtain c' w' where res: "getCodecFor demo_goavro (demo_codec 4294967299 ''long'') ?k ?w0 = (Inr ''long'', c', w')"
    by (simp add: getCodecFor_def call_GetSchemaFor_def demo_codec_def NewCodec_def demo_client_def
        demo_goavro_def getTopicNameStrategy_def)
  have enc: "BinaryFromNative demo_goavro ''long'' [] (Some [7]) = Inr [7]"
    by (simp add: demo_goavro_def)
  from version_field_wraps [of 3 "[]" "demo_codec 4294967299 ''long''" "''orders''" False "''long''"
      world0 ?w0 demo_goavro "''long''" c' w' "Some [7]" "[7]" "[]"] b3 in3
  have g3: "getSchemaID (Slice [0, 0, 0, 3] []) = Returned 3"
    by auto
  from version_field_wraps [of 4294967299 "[]" "demo_codec 4294967299 ''long''" "''orders''" False "''long''"
      world0 ?w0 demo_goavro "''long''" c' w' "Some [7]" "[7]" "[]"] b4 g out4 ver res enc
  have "(3 :: go_int) \<noteq> 4294967299
      \<and> fst (Encode demo_goavro (demo_codec 4294967299 ''long'') ''orders'' False ''long'' (Some [7]) world0)
          = Returned (Some ((0 # [0, 0, 0, 3]) @ [7]), None)
      \<and> extractSubjectAndVersionFromData ''orders'' False (Slice ((0 # [0, 0, 0, 3]) @ [7]) [])
          = Returned (Inr \<lparr>subject = getTopicNameStrategy ''orders'' False, versionID = 3\<rparr>)"
    by auto
  then show ?thesis using b3 b4 g3 by (simp add: getTopicNameStrategy_def)
qed

section \<open>Round trip\<close>

text \<open>
  C3, as amended. Let the registry return the version \<open>ver\<close> for the subject of
  \<open>(topic, isKey)\<close> and the schema, with \<open>0 \<le> ver < 2^32\<close>; let the key of that subject
  and version resolve to a codec; let the codec serialize the native value, and let its
  decoding invert its encoding on that payload. Then \<open>Encode\<close> returns a frame, and
  \<open>Decode\<close> of that frame, on the same codec and for the same topic and flag, returns the
  native value and no error. The slice that holds the frame may have any spare capacity.
\<close>

theorem Decode_Encode_roundtrip:
  assumes ver: "call_GetVersionFor (client c) (getTopicNameStrategy topic isKey) schema w = (Inr ver, w0)"
    and lo: "0 \<le> sint ver" and hi: "sint ver < 2 ^ 32"
    and res: "getCodecFor av c \<lparr>subject = getTopicNameStrategy topic isKey, versionID = ver\<rparr> w0 = (Inr cd, c', w')"
    and enc: "BinaryFromNative av cd [] native = Inr payload"
    and dec: "NativeFromBinary av cd payload = Inr (native, rest)"
  shows "decode_encoded av c topic isKey schema native sp w = Some (Returned (native, None))"
proof -
  let ?k = "\<lparr>subject = getTopicNameStrategy topic isKey, versionID = ver\<rparr>"
  let ?frame = "0 # ucast (drop_bit 24 (ucast ver :: uint32)) # ucast (drop_bit 16 (ucast ver :: uint32))
                  # ucast (drop_bit 8 (ucast ver :: uint32)) # ucast (ucast ver :: uint32) # payload"
  have E: "Encode av c topic isKey schema native w = (Returned (Some ?frame, None), c', w')"
    using Encode_success [OF ver res enc] by simp
  have "ucast (ucast ver :: uint32) = ver"
    using in_range_take_bit [OF lo hi] by (simp only: ucast_ucast_go_int)
  then have X: "extractSubjectAndVersionFromData topic isKey (Slice ?frame sp) = Returned (Inr ?k)"
    using extract_frame [of topic isKey "ucast ver" payload sp] by simp
  have H: "getCodecFor av c' ?k w' = (Inr cd, c', w')"
    by (rule getCodecFor_hit) (rule getCodecFor_Inr_cached [OF res])
  have S: "slice_lo (Slice ?frame sp) 5 = Returned (Slice payload sp)"
    using slice_frame_5 [of 0 _ _ _ _ payload sp] by simp
  have D: "Decode av c' topic isKey (Slice ?frame sp) w' = (Returned (native, None), c', w')"
    by (simp add: Decode_def X H S dec)
  show ?thesis
    by (simp add: decode_encoded_def E D)
qed

text \<open>
  The scenario of the specification: topic \<open>orders\<close>, a record value, the schema registered
  as version 3.
\<close>

theorem Decode_Encode_roundtrip_witness:
  "decode_encoded demo_goavro (demo_codec 3 ''long'') ''orders'' False ''long'' (Some [7]) [] world0
     = Some (Returned (Some [7], None))"
proof -
  let ?w0 = "\<lparr>registry = 1::nat, calls = [GetVersionFor_call ''orders-value'' ''long'']\<rparr>"
  let ?k = "\<lparr>subject = getTopicNameStrategy ''orders'' False, versionID = 3\<rparr>"
  have ver: "call_GetVersionFor (client (demo_codec 3 ''long'')) (getTopicNameStrategy ''orders'' False)
               ''long'' world0 = (Inr 3, ?w0)"
    by (simp add: call_GetVersionFor_def demo_codec_def NewCodec_def demo_client_def world0_def
        getTopicNameStrategy_def)
  obtain c' w' where res: "getCodecFor demo_goavro (demo_codec 3 ''long'') ?k ?w0 = (Inr ''long'', c', w')"
    by (simp add: getCodecFor_def call_GetSchemaFor_def demo_codec_def NewCodec_def demo_client_def
        demo_goavro_def getTopicNameStrategy_def)
  have enc: "BinaryFromNative demo_goavro ''long'' [] (Some [7]) = Inr [7]"
    by (simp add: demo_goavro_def)
  have dec: "NativeFromBinary demo_goavro ''long'' [7] = Inr (Some [7], [])"
    by (simp add: demo_goavro_def)
  have lo: "0 \<le> sint (3 :: go_int)" and hi: "sint (3 :: go_int) < 2 ^ 32"
    by simp_all
  show ?thesis
    by (rule Decode_Encode_roundtrip [OF ver lo hi res enc dec])
qed

text \<open>
  C3 as stated has no bound on the version. With the schema registered as version
  \<open>2^32 + 3\<close>, a value that conforms and a codec that inverts, \<open>Encode\<close> succeeds, but the
  frame says version 3 and \<open>Decode\<close> fails on the lookup of that version.
\<close>

theorem roundtrip_fails_beyond_32_bits:
  "decode_encoded demo_goavro (demo_codec 4294967299 ''long'') ''orders'' False ''long'' (Some [7]) [] world0
     = Some (Returned (None, Some (externalError ''version not found'')))"
proof -
  let ?c = "demo_codec 4294967299 ''long''"
  let ?w0 = "\<lparr>registry = 1::nat, calls = [GetVersionFor_call ''orders-value'' ''long'']\<rparr>"
  let ?k = "\<lparr>subject = getTopicNameStrategy ''orders'' False, versionID = 4294967299\<rparr>"
  let ?k3 = "\<lparr>subject = ''orders-value'', versionID = 3\<rparr>"
  let ?c' = "?c\<lparr>codecCache := (codecCache ?c)(?k \<mapsto> ''long'')\<rparr>"
  let ?w' = "\<lparr>registry = 2::nat, calls = [GetVersionFor_call ''orders-value'' ''long'',
               GetSchemaFor_call \<lparr>subject = ''orders-value'', versionID = 4294967299\<rparr> (Inr ''long'')]\<rparr>"
  have ver: "call_GetVersionFor (client ?c) (getTopicNameStrategy ''orders'' False)
               ''long'' world0 = (Inr 4294967299, ?w0)"
    by (simp add: call_GetVersionFor_def demo_codec_def NewCodec_def demo_client_def world0_def
        getTopicNameStrategy_def)
  have res: "getCodecFor demo_goavro ?c ?k ?w0 = (Inr ''long'', ?c', ?w')"
    by (simp add: getCodecFor_def call_GetSchemaFor_def demo_codec_def NewCodec_def demo_client_def
        demo_goavro_def getTopicNameStrategy_def)
  have enc: "BinaryFromNative demo_goavro ''long'' [] (Some [7]) = Inr [7]"
    by (simp add: demo_goavro_def)
  have E: "Encode demo_goavro ?c ''orders'' False ''long'' (Some [7]) world0
             = (Returned (Some [0, 0, 0, 0, 3, 7], None), ?c', ?w')"
    using Encode_success [OF ver res enc] by simp
  have X: "extractSubjectAndVersionFromData ''orders'' False (Slice [0, 0, 0, 0, 3, 7] []) = Returned (Inr ?k3)"
    by (simp add: extractSubjectAndVersionFromData_def index_def len_def slice_lo_hi_def cap_def
        getSchemaID_def BigEndian_Uint32_def getTopicNameStrategy_def)
  have miss: "codecCache ?c' ?k3 = None"
    by (simp add: demo_codec_def NewCodec_def getTopicNameStrategy_def)
  have look: "GetSchemaFor (client ?c') ?k3 (registry ?w') = (Inl (externalError ''version not found''), 3)"
    by (simp add: demo_codec_def NewCodec_def demo_client_def)
  have D: "fst (Decode demo_goavro ?c' ''orders'' False (Slice [0, 0, 0, 0, 3, 7] []) ?w')
             = Returned (None, Some (externalError ''version not found''))"
    using Decode_resolution_fails [OF X getCodecFor_lookup_fails [OF miss look, where av = demo_goavro]]
    by simp
  show ?thesis
    by (simp add: decode_encoded_def E D)
qed

section \<open>What a call leaves behind\<close>

lemma Decode_state_resolved:
  "extractSubjectAndVersionFromData topic isKey data = Returned (Inr k)
     \<Longrightarrow> snd (Decode av c topic isKey data w) = snd (getCodecFor av c k w)"
  by (simp add: Decode_def split: outcome.splits sum.splits prod.splits)

lemma Decode_state_cases:
  "snd (Decode av c topic isKey data w) = (c, w)
   \<or> (\<exists>k. snd (Decode av c topic isKey data w) = snd (getCodecFor av c k w))"
proof (cases "extractSubjectAndVersionFromData topic isKey data")
  case (Panicked p)
  then show ?thesis by (simp add: Decode_def)
next
  case (Returned r)
  show ?thesis
  proof (cases r)
    case (Inl e)
    with Returned show ?thesis by (simp add: Decode_def)
  next
    case (Inr k)
    with Returned have "snd (Decode av c topic isKey data w) = snd (getCodecFor av c k w)"
      by (simp add: Decode_state_resolved)
    then show ?thesis by blast
  qed
qed

lemma Encode_state_Inl:
  "call_GetVersionFor (client c) (getTopicNameStrategy topic isKey) schema w = (Inl e, w0)
     \<Longrightarrow> snd (Encode av c topic isKey schema native w) = (c, w0)"
  by (simp add: Encode_def)

lemma Encode_state_Inr:
  "call_GetVersionFor (client c) (getTopicNameStrategy topic isKey) schema w = (Inr ver, w0)
     \<Longrightarrow> snd (Encode av c topic isKey schema native w)
         = snd (getCodecFor av c \<lparr>subject = getTopicNameStrategy topic isKey, versionID = ver\<rparr> w0)"
  by (simp add: Encode_def Let_def bytesForSchemaID_Returned split: prod.splits sum.splits)

section \<open>The configured naming strategy\<close>

text \<open>
  C5. The claim: \<open>Decode\<close> and \<open>Encode\<close> compute the subject with the strategy configured
  in the codec's \<open>subjectNameStrategy\<close> field. The field is set by \<open>NewCodec\<close> and never
  read: both paths call \<open>getTopicNameStrategy\<close> directly. On a codec whose field holds the
  strategy that ignores the key/value distinction, which maps \<open>orders\<close> to the subject
  \<open>orders\<close>, \<open>Encode\<close> and \<open>Decode\<close> still ask the registry about \<open>orders-value\<close>.
\<close>

theorem configured_strategy_not_used:
  "subjectNameStrategy ((demo_codec 3 ''long'')\<lparr>subjectNameStrategy := topicOnlyStrategy\<rparr>) ''orders'' False
     = ''orders''
   \<and> calls (snd (snd (Encode demo_goavro ((demo_codec 3 ''long'')\<lparr>subjectNameStrategy := topicOnlyStrategy\<rparr>)
                         ''orders'' False ''long'' (Some [7]) world0)))
     = [GetVersionFor_call ''orders-value'' ''long'',
        GetSchemaFor_call \<lparr>subject = ''orders-value'', versionID = 3\<rparr> (Inr ''long'')]
   \<and> calls (snd (snd (Decode demo_goavro ((demo_codec 3 ''long'')\<lparr>subjectNameStrategy := topicOnlyStrategy\<rparr>)
                         ''orders'' False (Slice [0, 0, 0, 0, 3, 7] []) world0)))
     = [GetSchemaFor_call \<lparr>subject = ''orders-value'', versionID = 3\<rparr> (Inr ''long'')]"
proof -
  let ?c = "(demo_codec 3 ''long'')\<lparr>subjectNameStrategy := topicOnlyStrategy\<rparr>"
  let ?k = "\<lparr>subject = getTopicNameStrategy ''orders'' False, versionID = 3\<rparr>"
  let ?k' = "\<lparr>subject = ''orders-value'', versionID = 3\<rparr>"
  have s: "subjectNameStrategy ?c ''orders'' False = ''orders''"
    by (simp add: topicOnlyStrategy_def)
  have v: "call_GetVersionFor (client ?c) (getTopicNameStrategy ''orders'' False) ''long'' world0
             = (Inr 3, \<lparr>registry = 1, calls = [GetVersionFor_call ''orders-value'' ''long'']\<rparr>)"
    by (simp add: call_GetVersionFor_def demo_codec_def NewCodec_def demo_client_def world0_def
        getTopicNameStrategy_def)
  have g: "calls (snd (snd (getCodecFor demo_goavro ?c ?k w))) = calls w @ [GetSchemaFor_call ?k' (Inr ''long'')]"
    for w :: "nat world"
    by (simp add: getCodecFor_def call_GetSchemaFor_def demo_codec_def NewCodec_def demo_client_def
        demo_goavro_def getTopicNameStrategy_def)
  have e: "calls (snd (snd (Encode demo_goavro ?c ''orders'' False ''long'' (Some [7]) world0)))
     = [GetVersionFor_call ''orders-value'' ''long'', GetSchemaFor_call ?k' (Inr ''long'')]"
    by (simp only: Encode_state_Inr [OF v] g) simp
  have x: "extractSubjectAndVersionFromData ''orders'' False (Slice [0, 0, 0, 0, 3, 7] []) = Returned (Inr ?k)"
    by (simp add: extractSubjectAndVersionFromData_def index_def len_def slice_lo_hi_def cap_def
        getSchemaID_def BigEndian_Uint32_def)
  have d: "calls (snd (snd (Decode demo_goavro ?c ''orders'' False (Slice [0, 0, 0, 0, 3, 7] []) world0)))
     = [GetSchemaFor_call ?k' (Inr ''long'')]"
    by (simp only: Decode_state_resolved [OF x] g) (simp add: world0_def)
  from s e d show ?thesis by simp
qed

section \<open>The cache over a sequence of calls\<close>

lemma lookups_append:
  "lookups k (xs @ ys) = lookups k xs + lookups k ys"
  by (simp add: lookups_def)

lemma stored_lookups_append:
  "stored_lookups av k (xs @ ys) = stored_lookups av k xs + stored_lookups av k ys"
  by (simp add: stored_lookups_def)

lemma call_GetVersionFor_calls:
  "call_GetVersionFor cl subj schema w = (r, w0) \<Longrightarrow> calls w0 = calls w @ [GetVersionFor_call subj schema]"
  by (auto simp add: call_GetVersionFor_def split: prod.splits)

text \<open>Any property of the codec and the world that the two state-changing steps keep is kept by a run.\<close>

lemma step_preserves:
  assumes g: "\<And>c w k. Q (c, w) \<Longrightarrow> Q (snd (getCodecFor av c k w))"
    and v: "\<And>c w subj schema r w0. Q (c, w) \<Longrightarrow> call_GetVersionFor (client c) subj schema w = (r, w0) \<Longrightarrow> Q (c, w0)"
    and q: "Q s"
  shows "Q (step av req s)"
proof -
  obtain c w where s: "s = (c, w)" by (cases s)
  show ?thesis
  proof (cases req)
    case (DecodeReq topic isKey data)
    from Decode_state_cases [of av c topic isKey data w] q g [of c w]
    show ?thesis unfolding s DecodeReq by auto
  next
    case (EncodeReq topic isKey schema native)
    obtain r w0 where c: "call_GetVersionFor (client c) (getTopicNameStrategy topic isKey) schema w = (r, w0)"
      by (cases "call_GetVersionFor (client c) (getTopicNameStrategy topic isKey) schema w")
    from v [OF _ c] q have q0: "Q (c, w0)" unfolding s .
    show ?thesis
    proof (cases r)
      case (Inl e)
      with c q0 show ?thesis unfolding s EncodeReq by (simp add: Encode_state_Inl)
    next
      case (Inr ver)
      with c g [OF q0] show ?thesis unfolding s EncodeReq by (simp add: Encode_state_Inr)
    qed
  qed
qed

lemma run_preserves:
  assumes g: "\<And>c w k. Q (c, w) \<Longrightarrow> Q (snd (getCodecFor av c k w))"
    and v: "\<And>c w subj schema r w0. Q (c, w) \<Longrightarrow> call_GetVersionFor (client c) subj schema w = (r, w0) \<Longrightarrow> Q (c, w0)"
  shows "Q s \<Longrightarrow> Q (run av qs s)"
proof (induction qs arbitrary: s)
  case Nil
  then show ?case by simp
next
  case (Cons q qs)
  from step_preserves [of Q av, OF g v Cons.prems] have "Q (step av q s)" .
  then show ?case by (simp add: Cons.IH)
qed

lemma run_keeps_entry:
  fixes c :: "('r, 'c) Codec"
  assumes "codecCache c k = Some cd"
  shows "codecCache (fst (run av qs (c, w))) k = Some cd
       \<and> lookups k (calls (snd (run av qs (c, w)))) = lookups k (calls w)"
proof -
  let ?Q = "\<lambda>s :: ('r, 'c) Codec \<times> 'r world. codecCache (fst s) k = Some cd \<and> lookups k (calls (snd s)) = lookups k (calls w)"
  have "?Q (run av qs (c, w))"
  proof (rule run_preserves [of ?Q])
    show "?Q (c, w)" using assms by simp
  next
    fix c' w' k'
    assume "?Q (c', w')"
    then show "?Q (snd (getCodecFor av c' k' w'))"
      by (auto simp add: getCodecFor_def call_GetSchemaFor_def lookups_append lookups_def
          split: option.splits prod.splits sum.splits)
  next
    fix c' w' subj schema r w0
    assume "?Q (c', w')" and "call_GetVersionFor (client c') subj schema w' = (r, w0)"
    then show "?Q (c', w0)"
      by (auto simp add: lookups_append lookups_def dest!: call_GetVersionFor_calls)
  qed
  then show ?thesis by simp
qed

lemma run_stores_once:
  fixes c :: "('r, 'c) Codec"
  assumes "stored_lookups av k (calls w) \<le> (if codecCache c k = None then 0 else 1)"
  shows "stored_lookups av k (calls (snd (run av qs (c, w)))) \<le> 1"
proof -
  let ?Q = "\<lambda>s :: ('r, 'c) Codec \<times> 'r world. stored_lookups av k (calls (snd s)) \<le> (if codecCache (fst s) k = None then 0 else 1)"
  have "?Q (run av qs (c, w))"
  proof (rule run_preserves [of ?Q])
    show "?Q (c, w)" using assms by simp
  next
    fix c' w' k'
    assume "?Q (c', w')"
    then show "?Q (snd (getCodecFor av c' k' w'))"
      by (auto simp add: getCodecFor_def call_GetSchemaFor_def stored_lookups_append stored_lookups_def
          split: option.splits prod.splits sum.splits if_splits)
  next
    fix c' w' subj schema r w0
    assume "?Q (c', w')" and "call_GetVersionFor (client c') subj schema w' = (r, w0)"
    then show "?Q (c', w0)"
      by (auto simp add: stored_lookups_append stored_lookups_def dest!: call_GetVersionFor_calls)
  qed
  then show ?thesis by (simp split: if_splits)
qed

lemma getCodecFor_miss_lookups:
  "codecCache c k = None
     \<Longrightarrow> lookups k (calls (snd (snd (getCodecFor av c k w)))) = Suc (lookups k (calls w))"
  by (auto simp add: getCodecFor_def call_GetSchemaFor_def lookups_def
      split: option.splits prod.splits sum.splits)

lemma failing_lookup_repeats:
  fixes c :: "('r, 'c) Codec"
  assumes miss: "codecCache c k = None"
    and x: "extractSubjectAndVersionFromData topic isKey data = Returned (Inr k)"
    and fail: "\<forall>r. \<exists>e. fst (GetSchemaFor (client c) k r) = Inl e"
  shows "fst (run av (replicate n (DecodeReq topic isKey data)) (c, w)) = c
       \<and> lookups k (calls (snd (run av (replicate n (DecodeReq topic isKey data)) (c, w))))
           = lookups k (calls w) + n"
proof (induction n arbitrary: w)
  case 0
  show ?case by simp
next
  case (Suc n)
  from fail obtain e where "fst (GetSchemaFor (client c) k (registry w)) = Inl e"
    by blast
  then obtain r' where "GetSchemaFor (client c) k (registry w) = (Inl e, r')"
    by (cases "GetSchemaFor (client c) k (registry w)") simp
  from getCodecFor_lookup_fails [OF miss this, of av]
  have g: "snd (getCodecFor av c k w)
             = (c, \<lparr>registry = r', calls = calls w @ [GetSchemaFor_call k (Inl e)]\<rparr>)"
    by simp
  let ?w1 = "\<lparr>registry = r', calls = calls w @ [GetSchemaFor_call k (Inl e)]\<rparr>"
  have s: "snd (Decode av c topic isKey data w) = (c, ?w1)"
    by (simp only: Decode_state_resolved [OF x] g)
  have l: "lookups k (calls w @ [GetSchemaFor_call k (Inl e)]) = Suc (lookups k (calls w))"
    by (simp add: lookups_def)
  from Suc.IH [of ?w1] show ?case
    by (simp add: s l)
qed

text \<open>
  C6, as amended. For a fixed key: once the cache holds an entry for it, a resolution
  returns that entry at once with no registry call, and over any sequence of \<open>Decode\<close> and
  \<open>Encode\<close> calls on the codec the entry stays the same and no further schema lookup is made
  for the key. Over the whole life of a codec made by \<open>NewCodec\<close>, at most one lookup of the
  key is answered with a schema that compiles. While the cache holds no entry for the key,
  every resolution makes exactly one lookup: when the lookup fails, or its schema does not
  compile, the error is returned and the codec is left as it was, and when the schema
  compiles its codec is stored under the key and returned. A \<open>Decode\<close> whose frame names
  the key, and an \<open>Encode\<close> for which the registry gave the key's version, change the
  codec and the world exactly as that resolution does; so against a registry that fails
  every lookup of the key, \<open>n\<close> calls of \<open>Decode\<close> on such a frame make \<open>n\<close> lookups.
\<close>

theorem cached_key_never_looked_up_again:
  "(codecCache c k = Some cd \<longrightarrow>
       getCodecFor av c k w = (Inr cd, c, w)
     \<and> codecCache (fst (run av qs (c, w))) k = Some cd
     \<and> lookups k (calls (snd (run av qs (c, w)))) = lookups k (calls w))
   \<and> (stored_lookups av k (calls w) = 0 \<longrightarrow>
       stored_lookups av k (calls (snd (run av qs (NewCodec cl, w)))) \<le> 1)
   \<and> (codecCache c k = None \<longrightarrow>
       lookups k (calls (snd (snd (getCodecFor av c k w)))) = Suc (lookups k (calls w))
     \<and> (GetSchemaFor (client c) k (registry w) = (Inl e, r') \<longrightarrow>
          getCodecFor av c k w
            = (Inl e, c, \<lparr>registry = r', calls = calls w @ [GetSchemaFor_call k (Inl e)]\<rparr>))
     \<and> (GetSchemaFor (client c) k (registry w) = (Inr schemaText, r') \<and> goavro_NewCodec av schemaText = Inl e \<longrightarrow>
          getCodecFor av c k w
            = (Inl e, c, \<lparr>registry = r', calls = calls w @ [GetSchemaFor_call k (Inr schemaText)]\<rparr>))
     \<and> (GetSchemaFor (client c) k (registry w) = (Inr schemaText, r') \<and> goavro_NewCodec av schemaText = Inr cd \<longrightarrow>
          getCodecFor av c k w
            = (Inr cd, c\<lparr>codecCache := (codecCache c)(k \<mapsto> cd)\<rparr>,
               \<lparr>registry = r', calls = calls w @ [GetSchemaFor_call k (Inr schemaText)]\<rparr>))
     \<and> (extractSubjectAndVersionFromData topic isKey data = Returned (Inr k)
          \<and> (\<forall>r. \<exists>err. fst (GetSchemaFor (client c) k r) = Inl err) \<longrightarrow>
          fst (run av (replicate n (DecodeReq topic isKey data)) (c, w)) = c
        \<and> lookups k (calls (snd (run av (replicate n (DecodeReq topic isKey data)) (c, w))))
            = lookups k (calls w) + n))
   \<and> (extractSubjectAndVersionFromData topic isKey data = Returned (Inr k) \<longrightarrow>
       snd (Decode av c topic isKey data w) = snd (getCodecFor av c k w))
   \<and> (call_GetVersionFor (client c) (getTopicNameStrategy topic isKey) schema w = (Inr ver, w0) \<longrightarrow>
       snd (Encode av c topic isKey schema native w)
         = snd (getCodecFor av c \<lparr>subject = getTopicNameStrategy topic isKey, versionID = ver\<rparr> w0))"
proof -
  have A: "getCodecFor av c k w = (Inr cd, c, w)
     \<and> codecCache (fst (run av qs (c, w))) k = Some cd
     \<and> lookups k (calls (snd (run av qs (c, w)))) = lookups k (calls w)"
    if "codecCache c k = Some cd"
    using getCodecFor_hit [OF that, of av w] run_keeps_entry [OF that, of av qs w] by simp
  have B: "stored_lookups av k (calls (snd (run av qs (NewCodec cl, w)))) \<le> 1"
    if "stored_lookups av k (calls w) = 0"
    by (rule run_stores_once) (simp add: that NewCodec_def)
  have C1: "lookups k (calls (snd (snd (getCodecFor av c k w)))) = Suc (lookups k (calls w))"
    if "codecCache c k = None"
    by (rule getCodecFor_miss_lookups [OF that])
  have C2: "getCodecFor av c k w
            = (Inl e, c, \<lparr>registry = r', calls = calls w @ [GetSchemaFor_call k (Inl e)]\<rparr>)"
    if "codecCache c k = None" and "GetSchemaFor (client c) k (registry w) = (Inl e, r')"
    by (rule getCodecFor_lookup_fails [OF that])
  have C3: "getCodecFor av c k w
            = (Inl e, c, \<lparr>registry = r', calls = calls w @ [GetSchemaFor_call k (Inr schemaText)]\<rparr>)"
    if "codecCache c k = None" and "GetSchemaFor (client c) k (registry w) = (Inr schemaText, r')"
      and "goavro_NewCodec av schemaText = Inl e"
    by (rule getCodecFor_compile_fails [OF that])
  have C4: "getCodecFor av c k w
            = (Inr cd, c\<lparr>codecCache := (codecCache c)(k \<mapsto> cd)\<rparr>,
               \<lparr>registry = r', calls = calls w @ [GetSchemaFor_call k (Inr schemaText)]\<rparr>)"
    if "codecCache c k = None" and "GetSchemaFor (client c) k (registry w) = (Inr schemaText, r')"
      and "goavro_NewCodec av schemaText = Inr cd"
    by (rule getCodecFor_stores [OF that])
  have C5: "fst (run av (replicate n (DecodeReq topic isKey data)) (c, w)) = c
        \<and> lookups k (calls (snd (run av (replicate n (DecodeReq topic isKey data)) (c, w))))
            = lookups k (calls w) + n"
    if "codecCache c k = None" and "extractSubjectAndVersionFromData topic isKey data = Returned (Inr k)"
      and "\<forall>r. \<exists>err. fst (GetSchemaFor (client c) k r) = Inl err"
    by (rule failing_lookup_repeats [OF that])
  have D: "snd (Decode av c topic isKey data w) = snd (getCodecFor av c k w)"
    if "extractSubjectAndVersionFromData topic isKey data = Returned (Inr k)"
    by (rule Decode_state_resolved [OF that])
  have E: "snd (Encode av c topic isKey schema native w)
         = snd (getCodecFor av c \<lparr>subject = getTopicNameStrategy topic isKey, versionID = ver\<rparr> w0)"
    if "call_GetVersionFor (client c) (getTopicNameStrategy topic isKey) schema w = (Inr ver, w0)"
    by (rule Encode_state_Inr [OF that])
  show ?thesis
    apply (intro conjI impI)
    using A B C1 C2 C3 C4 C5 D E by blast+
qed

text \<open>
  A codec that holds version 3 decodes and encodes with no lookup of it; a fresh codec
  stores version 3 on the first resolution; version 7, which the registry does not know,
  is looked up by each of two \<open>Decode\<close> calls.
\<close>

theorem cached_key_never_looked_up_again_witness:
  "lookups \<lparr>subject = ''orders-value'', versionID = 3\<rparr>
        (calls (snd (run demo_goavro
           [DecodeReq ''orders'' False (Slice [0, 0, 0, 0, 3, 7] []), EncodeReq ''orders'' False ''long'' (Some [7])]
           ((demo_codec 3 ''long'')\<lparr>codecCache := [\<lparr>subject = ''orders-value'', versionID = 3\<rparr> \<mapsto> ''long'']\<rparr>,
            world0)))) = 0
   \<and> stored_lookups demo_goavro \<lparr>subject = ''orders-value'', versionID = 3\<rparr>
        (calls (snd (run demo_goavro
           [DecodeReq ''orders'' False (Slice [0, 0, 0, 0, 3, 7] []), EncodeReq ''orders'' False ''long'' (Some [7])]
           (NewCodec (demo_client 3 ''long''), world0)))) \<le> 1
   \<and> getCodecFor demo_goavro (demo_codec 3 ''long'') \<lparr>subject = ''orders-value'', versionID = 3\<rparr> world0
       = (Inr ''long'',
          (demo_codec 3 ''long'')\<lparr>codecCache :=
             (codecCache (demo_codec 3 ''long''))(\<lparr>subject = ''orders-value'', versionID = 3\<rparr> \<mapsto> ''long'')\<rparr>,
          \<lparr>registry = 1, calls = [GetSchemaFor_call \<lparr>subject = ''orders-value'', versionID = 3\<rparr> (Inr ''long'')]\<rparr>)
   \<and> lookups \<lparr>subject = ''orders-value'', versionID = 7\<rparr>
        (calls (snd (run demo_goavro (replicate 2 (DecodeReq ''orders'' False (Slice [0, 0, 0, 0, 7, 1] [])))
           (demo_codec 3 ''long'', world0)))) = 2"
proof -
  let ?k = "\<lparr>subject = ''orders-value'', versionID = 3\<rparr>"
  let ?k7 = "\<lparr>subject = ''orders-value'', versionID = 7\<rparr>"
  let ?c = "demo_codec 3 ''long''"
  let ?c1 = "?c\<lparr>codecCache := [?k \<mapsto> ''long'']\<rparr>"
  let ?qs = "[DecodeReq ''orders'' False (Slice [0, 0, 0, 0, 3, 7] []), EncodeReq ''orders'' False ''long'' (Some [7])]"
  let ?d7 = "Slice [0, 0, 0, 0, 7, 1] []"
  have hit: "codecCache ?c1 ?k = Some ''long''"
    by simp
  have none: "stored_lookups demo_goavro ?k (calls world0) = 0"
    by (simp add: stored_lookups_def world0_def)
  have empty: "lookups ?k (calls world0) = 0" and empty7: "lookups ?k7 (calls world0) = 0"
    by (simp_all add: lookups_def world0_def)
  have miss: "codecCache ?c ?k = None" and miss7: "codecCache ?c ?k7 = None"
    by (simp_all add: demo_codec_def NewCodec_def)
  have look: "GetSchemaFor (client ?c) ?k (registry world0) = (Inr ''long'', 1)"
    by (simp add: demo_codec_def NewCodec_def demo_client_def world0_def)
  have comp: "goavro_NewCodec demo_goavro ''long'' = Inr ''long''"
    by (simp add: demo_goavro_def)
  have x7: "extractSubjectAndVersionFromData ''orders'' False ?d7 = Returned (Inr ?k7)"
    by (simp add: extractSubjectAndVersionFromData_def index_def len_def slice_lo_hi_def cap_def
        getSchemaID_def BigEndian_Uint32_def getTopicNameStrategy_def)
  have fail7: "\<forall>r. \<exists>err. fst (GetSchemaFor (client ?c) ?k7 r) = Inl err"
    by (simp add: demo_codec_def NewCodec_def demo_client_def)
  note T1 = cached_key_never_looked_up_again [where c = ?c1 and k = ?k and cd = "''long''" and av = demo_goavro
      and w = world0 and qs = ?qs and cl = "demo_client 3 ''long''"]
  note T2 = cached_key_never_looked_up_again [where c = ?c and k = ?k and cd = "''long''" and av = demo_goavro
      and w = world0 and schemaText = "''long''" and r' = 1]
  note T3 = cached_key_never_looked_up_again [where c = ?c and k = ?k7 and av = demo_goavro
      and w = world0 and topic = "''orders''" and isKey = False and data = ?d7 and n = 2]
  from T1 hit have a: "lookups ?k (calls (snd (run demo_goavro ?qs (?c1, world0)))) = lookups ?k (calls world0)"
    by blast
  from T1 none
  have b: "stored_lookups demo_goavro ?k (calls (snd (run demo_goavro ?qs (NewCodec (demo_client 3 ''long''), world0)))) \<le> 1"
    by blast
  from T2 miss look comp
  have c: "getCodecFor demo_goavro ?c ?k world0
       = (Inr ''long'', ?c\<lparr>codecCache := (codecCache ?c)(?k \<mapsto> ''long'')\<rparr>,
          \<lparr>registry = 1, calls = calls world0 @ [GetSchemaFor_call ?k (Inr ''long'')]\<rparr>)"
    by blast
  from T3 miss7 x7 fail7
  have d: "lookups ?k7 (calls (snd (run demo_goavro (replicate 2 (DecodeReq ''orders'' False ?d7)) (?c, world0))))
             = lookups ?k7 (calls world0) + 2"
    by blast
  have w: "calls world0 = []"
    by (simp add: world0_def)
  from a empty have a': "lookups ?k (calls (snd (run demo_goavro ?qs (?c1, world0)))) = 0"
    by (rule trans)
  from d empty7
  have d': "lookups ?k7 (calls (snd (run demo_goavro (replicate 2 (DecodeReq ''orders'' False ?d7)) (?c, world0)))) = 2"
    by (simp only: add_0)
  from c w have c': "getCodecFor demo_goavro ?c ?k world0
       = (Inr ''long'', ?c\<lparr>codecCache := (codecCache ?c)(?k \<mapsto> ''long'')\<rparr>,
          \<lparr>registry = 1, calls = [GetSchemaFor_call ?k (Inr ''long'')]\<rparr>)"
    by (simp only: append_Nil)
  from a' b c' d' show ?thesis
    by (intro conjI)
qed

text \<open>
  C6 as stated bounds the lookups of a key by one. The registry does not know version 7:
  two \<open>Decode\<close> calls of a frame of that version make two lookups of the same key.
\<close>

theorem failed_lookup_is_repeated:
  "lookups \<lparr>subject = ''orders-value'', versionID = 7\<rparr>
     (calls (snd (run demo_goavro
        [DecodeReq ''orders'' False (Slice [0, 0, 0, 0, 7, 1] []), DecodeReq ''orders'' False (Slice [0, 0, 0, 0, 7, 1] [])]
        (demo_codec 3 ''long'', world0)))) = 2"
proof -
  let ?k = "\<lparr>subject = getTopicNameStrategy ''orders'' False, versionID = 7\<rparr>"
  let ?k' = "\<lparr>subject = ''orders-value'', versionID = 7\<rparr>"
  let ?c = "demo_codec 3 ''long''"
  let ?e = "Inl (externalError ''version not found'') :: error + string"
  have x: "extractSubjectAndVersionFromData ''orders'' False (Slice [0, 0, 0, 0, 7, 1] []) = Returned (Inr ?k)"
    by (simp add: extractSubjectAndVersionFromData_def index_def len_def slice_lo_hi_def cap_def
        getSchemaID_def BigEndian_Uint32_def)
  have g: "snd (getCodecFor demo_goavro ?c ?k w)
             = (?c, \<lparr>registry = Suc (registry w), calls = calls w @ [GetSchemaFor_call ?k' ?e]\<rparr>)"
    for w :: "nat world"
    by (simp add: getCodecFor_def call_GetSchemaFor_def demo_codec_def NewCodec_def demo_client_def
        getTopicNameStrategy_def)
  have d: "snd (Decode demo_goavro ?c ''orders'' False (Slice [0, 0, 0, 0, 7, 1] []) w)
             = (?c, \<lparr>registry = Suc (registry w), calls = calls w @ [GetSchemaFor_call ?k' ?e]\<rparr>)"
    for w :: "nat world"
    by (simp only: Decode_state_resolved [OF x] g)
  show ?thesis
    by (simp add: d lookups_def world0_def)
qed

end
